theory Spec2Isabelle
  imports Complex_Main
begin

text \<open>
  The conversation export of cursor-chat-browser: the two normalizers
  (\<open>processComposerChat\<close>, \<open>processChatTab\<close>), the bulk export handler
  \<open>GET /api/export\<close> and the lookup handler \<open>GET /api/conversations/:id\<close>. The
  repository holds the export route twice, in \<open>src/app/api/export/route.ts\<close> (on sqlite3)
  and in \<open>unnamed/part_002\<close> (on better-sqlite3); the two differ in \<open>processChatTab\<close>
  only, and both are modelled.
\<close>

section \<open>JSON values\<close>

datatype json = JNull | JBool bool | JNum int | JStr string | JArr "json list"
  | JObj "(string \<times> json) list"

text \<open>The truthiness of a parsed JSON value: \<open>null\<close>, \<open>false\<close>, 0 and the empty string are falsy.\<close>

fun js_truthy :: "json \<Rightarrow> bool" where
  "js_truthy JNull = False"
| "js_truthy (JBool b) = b"
| "js_truthy (JNum n) = (n \<noteq> 0)"
| "js_truthy (JStr s) = (s \<noteq> [])"
| "js_truthy (JArr xs) = True"
| "js_truthy (JObj ps) = True"

section \<open>Raw records of the workspace store\<close>

text \<open>
  Modelled from the spec: the TypeScript declarations \<open>ComposerChat\<close>, \<open>ComposerData\<close> and
  \<open>ChatTab\<close> are imported from \<open>@/types/workspace\<close>, which is not among the source files.
  The records below carry the fields that \<open>processComposerChat\<close>, \<open>extractFilePaths\<close>,
  both versions of \<open>processChatTab\<close> and the lookup route read, with the optionality the
  code itself guards for (\<open>?.\<close>, \<open>&&\<close>, \<open>||\<close>, \<open>Array.isArray\<close>) and that section 3 of
  the spec lists for RawComposerThread and RawChatTab. An absent (\<open>undefined\<close>) field is
  \<open>None\<close>. Timestamps are epoch milliseconds, integers. A string is the sequence of its
  code units, so \<open>length\<close> is JavaScript's \<open>.length\<close>.

  The \<open>conversation\<close> property of a thread is the one place where the code asks
  \<open>Array.isArray\<close>. It is an array of messages (\<open>conversation = Some ms\<close>), or absent
  (\<open>conversation = None\<close> and \<open>conversation_nonarray = None\<close>), or present with a value
  that is not an array (\<open>conversation = None\<close> and \<open>conversation_nonarray = Some v\<close>).
\<close>

record Uri =
  fsPath :: "string option"

record FileSelection =
  uri :: "Uri option"

record Selection =
  sel_text :: string

record FolderSelection =
  path :: string

record SelectedDoc =
  doc_title :: string
  doc_content :: string

record SelectedCommit =
  hash :: string
  commit_message :: string

record Context =
  selections :: "Selection list option"
  fileSelections :: "FileSelection list option"
  folderSelections :: "FolderSelection list option"
  selectedDocs :: "SelectedDoc list option"
  selectedCommits :: "SelectedCommit list option"

record RawMessage =
  bubbleId :: string
  msg_type :: int
  msg_text :: string
  msg_timestamp :: int
  msg_context :: "Context option"

record ComposerChat =
  composerId :: string
  composer_name :: "string option"
  composer_createdAt :: int
  composer_lastUpdatedAt :: int
  conversation :: "RawMessage list option"
  conversation_nonarray :: "json option"
  composer_context :: "Context option"

record ChatBubble =
  bubble_type :: string
  bubble_text :: "string option"
  bubble_timestamp :: "int option"
  bubble_selections :: "Selection list option"
  modelType :: "string option"

record ChatTab =
  tab_id :: string
  tabId :: "string option"
  tab_title :: string
  tab_timestamp :: int
  bubbles :: "ChatBubble list"

section \<open>The export format\<close>

record ExportedContext =
  codeSelections :: "string list option"
  files :: "string list option"
  folders :: "string list option"
  docs :: "(string \<times> string) list option"
  commits :: "(string \<times> string) list option"

record ExportedMetadata =
  meta_modelType :: "string option"
  meta_bubbleId :: "string option"

record ExportedMessage =
  msg_id :: string
  role :: string
  content :: string
  timestamp :: int
  formattedTimestamp :: string
  export_context :: ExportedContext
  metadata :: ExportedMetadata

record WorkspaceRef =
  ws_id :: string
  folder :: "string option"

text \<open>
  \<open>hasCodeContext\<close> is declared \<open>boolean\<close>, but the composer normalizer computes it with
  \<open>||\<close> and \<open>&&\<close>, which return an operand: the value is \<open>undefined\<close> (\<open>None\<close>) when there
  is no file and no thread-level selection list.
\<close>

record Summary =
  messageCount :: nat
  userMessageCount :: nat
  assistantMessageCount :: nat
  hasCodeContext :: "bool option"
  filesReferenced :: "string list"
  averageMessageLength :: int

record ExportedConversation =
  conv_id :: string
  conv_type :: string
  title :: string
  messages :: "ExportedMessage list"
  createdAt :: int
  lastUpdatedAt :: int
  formattedCreatedAt :: string
  formattedLastUpdatedAt :: string
  workspace :: WorkspaceRef
  summary :: Summary

record ExportMetadata =
  exportVersion :: string
  source :: string
  description :: string

record ExportData =
  exportedAt :: string
  exportedAtTimestamp :: int
  totalConversations :: nat
  totalMessages :: nat
  conversations :: "ExportedConversation list"
  export_metadata :: ExportMetadata

datatype js_error = RangeError | SyntaxError | TypeError | SqliteError | FsError

section \<open>Dates and numbers of the platform\<close>

definition digit_char :: "nat \<Rightarrow> char" where
  "digit_char d = ''0123456789'' ! d"

text \<open>The decimal digits of a number, least significant first, as \<open>String(n)\<close> prints them reversed.\<close>

fun digits_rev :: "nat \<Rightarrow> nat \<Rightarrow> string" where
  "digits_rev 0 n = []"
| "digits_rev (Suc k) n =
     (if n < 10 then [digit_char n] else digit_char (n mod 10) # digits_rev k (n div 10))"

definition string_of_nat :: "nat \<Rightarrow> string" where
  "string_of_nat n = rev (digits_rev (Suc n) n)"

definition pad :: "nat \<Rightarrow> nat \<Rightarrow> string" where
  "pad w n = (let s = string_of_nat n in replicate (w - length s) (CHR ''0'') @ s)"

text \<open>
  \<open>new Date(t).toISOString()\<close> for a time value in range: the proleptic Gregorian date of
  day \<open>t div 86400000\<close> and the time of day, \<open>YYYY-MM-DDTHH:mm:ss.sssZ\<close>, with a signed
  six-digit year outside 0..9999.
\<close>

definition civil_from_days :: "int \<Rightarrow> int \<times> nat \<times> nat" where
  "civil_from_days z0 =
     (let z = z0 + 719468;
          era = z div 146097;
          doe = z - era * 146097;
          yoe = (doe - doe div 1460 + doe div 36524 - doe div 146096) div 365;
          doy = doe - (365 * yoe + yoe div 4 - yoe div 100);
          mp = (5 * doy + 2) div 153;
          d = doy - (153 * mp + 2) div 5 + 1;
          m = (if mp < 10 then mp + 3 else mp - 9);
          y = yoe + era * 400 + (if m \<le> 2 then 1 else 0)
      in (y, nat m, nat d))"

definition iso_year :: "int \<Rightarrow> string" where
  "iso_year y =
     (if 0 \<le> y \<and> y \<le> 9999 then pad 4 (nat y)
      else (if y < 0 then ''-'' else ''+'') @ pad 6 (nat \<bar>y\<bar>))"

definition toISOString :: "int \<Rightarrow> string" where
  "toISOString t =
     (let (y, m, d) = civil_from_days (t div 86400000);
          ms = nat (t mod 86400000)
      in iso_year y @ ''-'' @ pad 2 m @ ''-'' @ pad 2 d @ ''T'' @
         pad 2 (ms div 3600000) @ '':'' @ pad 2 (ms div 60000 mod 60) @ '':'' @
         pad 2 (ms div 1000 mod 60) @ ''.'' @ pad 3 (ms mod 1000) @ ''Z'')"

text \<open>
  A \<open>Date\<close> holds a time value of at most 8.64e15 ms in magnitude; beyond it the date is
  invalid, \<open>getTime()\<close> is \<open>NaN\<close> and \<open>toISOString()\<close> throws a RangeError.
\<close>

definition valid_time :: "int \<Rightarrow> bool" where
  "valid_time t \<longleftrightarrow> \<bar>t\<bar> \<le> 8640000000000000"

definition formatTimestamp :: "int \<Rightarrow> js_error + string" where
  "formatTimestamp t = (if valid_time t then Inr (toISOString t) else Inl RangeError)"

text \<open>
  \<open>Math.round(sum / n)\<close>: the quotient is a rational here (the double is exact enough for
  any sum below \<open>2^52\<close>), and \<open>Math.round\<close> rounds a half towards plus infinity.
\<close>

definition Math_round :: "rat \<Rightarrow> int" where
  "Math_round x = \<lfloor>x + 1 / 2\<rfloor>"

section \<open>Helpers for JavaScript idioms\<close>

text \<open>
  \<open>xs.forEach((x, index) => ... push ...)\<close>: the callback pushes some elements on the one
  array or throws; a throw leaves the loop and the enclosing function.
\<close>

fun forEach_push :: "(nat \<Rightarrow> 'a \<Rightarrow> js_error + 'b list) \<Rightarrow> nat \<Rightarrow> 'a list \<Rightarrow> js_error + 'b list" where
  "forEach_push f index [] = Inr []"
| "forEach_push f index (x # xs) =
     (case f index x of
        Inl e \<Rightarrow> Inl e
      | Inr ys \<Rightarrow> (case forEach_push f (Suc index) xs of
                    Inl e \<Rightarrow> Inl e
                  | Inr zs \<Rightarrow> Inr (ys @ zs)))"

text \<open>\<open>.filter(Boolean)\<close> on strings that may be undefined keeps the non-empty ones.\<close>

definition truthy :: "string option \<Rightarrow> bool" where
  "truthy s \<longleftrightarrow> (case s of None \<Rightarrow> False | Some t \<Rightarrow> t \<noteq> [])"

definition filter_Boolean :: "string option list \<Rightarrow> string list" where
  "filter_Boolean xs = map the (filter truthy xs)"

text \<open>\<open>file.uri?.fsPath\<close>\<close>

definition file_fsPath :: "FileSelection \<Rightarrow> string option" where
  "file_fsPath file = (case uri file of None \<Rightarrow> None | Some u \<Rightarrow> fsPath u)"

text \<open>A \<open>Set<string>\<close> in insertion order; \<open>add\<close> of a member changes nothing.\<close>

definition Set_add :: "string list \<Rightarrow> string \<Rightarrow> string list" where
  "Set_add s x = (if x \<in> set s then s else s @ [x])"

section \<open>The composer normalizer\<close>

definition add_fileSelections :: "string list \<Rightarrow> FileSelection list \<Rightarrow> string list" where
  "add_fileSelections =
     foldl (\<lambda>s file. if truthy (file_fsPath file) then Set_add s (the (file_fsPath file)) else s)"

definition extractFilePaths :: "ComposerChat \<Rightarrow> string list" where
  "extractFilePaths composer =
     (let files0 = [];
          files1 = (case Option.bind (composer_context composer) fileSelections of
                      None \<Rightarrow> files0
                    | Some fs \<Rightarrow> add_fileSelections files0 fs);
          files2 = (case conversation composer of
                      None \<Rightarrow> files1
                    | Some msgs \<Rightarrow>
                        foldl (\<lambda>s msg. case Option.bind (msg_context msg) fileSelections of
                                          None \<Rightarrow> s
                                        | Some fs \<Rightarrow> add_fileSelections s fs) files1 msgs)
      in files2)"

definition composerContext :: "Context option \<Rightarrow> ExportedContext" where
  "composerContext c =
     \<lparr> codeSelections =
         map_option (\<lambda>ss. filter (\<lambda>t. t \<noteq> []) (map sel_text ss)) (Option.bind c selections),
       files = map_option (\<lambda>fs. filter_Boolean (map file_fsPath fs)) (Option.bind c fileSelections),
       folders = map_option (map path) (Option.bind c folderSelections),
       docs = map_option (map (\<lambda>d. (doc_title d, doc_content d))) (Option.bind c selectedDocs),
       commits = map_option (map (\<lambda>c. (hash c, commit_message c))) (Option.bind c selectedCommits) \<rparr>"

definition composerMessage :: "RawMessage \<Rightarrow> js_error + ExportedMessage list" where
  "composerMessage msg =
     (case formatTimestamp (msg_timestamp msg) of
        Inl e \<Rightarrow> Inl e
      | Inr ft \<Rightarrow>
          Inr [\<lparr> msg_id = bubbleId msg,
                 role = (if msg_type msg = 1 then ''user'' else ''assistant''),
                 content = msg_text msg,
                 timestamp = msg_timestamp msg,
                 formattedTimestamp = ft,
                 export_context = composerContext (msg_context msg),
                 metadata = \<lparr> meta_modelType = None, meta_bubbleId = Some (bubbleId msg) \<rparr> \<rparr>])"

definition avgLength :: "ExportedMessage list \<Rightarrow> rat" where
  "avgLength msgs =
     (if length msgs > 0
      then of_nat (foldl (\<lambda>sum m. sum + length (content m)) 0 msgs) / of_nat (length msgs)
      else 0)"

text \<open>
  A \<open>conversation\<close> that is present, truthy and not an array has no \<open>forEach\<close>: the
  call \<open>composer.conversation.forEach\<close> throws a TypeError, in the message loop for a
  non-empty string or an object with a positive \<open>length\<close>, and at the latest in
  \<open>extractFilePaths\<close>. A falsy one (\<open>null\<close>, \<open>false\<close>, 0, the empty string) passes both
  guards like an absent one.
\<close>

definition nonarray_truthy :: "ComposerChat \<Rightarrow> bool" where
  "nonarray_truthy composer \<longleftrightarrow>
     conversation composer = None \<and>
     (case conversation_nonarray composer of None \<Rightarrow> False | Some v \<Rightarrow> js_truthy v)"

definition processComposerChat ::
  "ComposerChat \<Rightarrow> string \<Rightarrow> string option \<Rightarrow> js_error + ExportedConversation" where
  "processComposerChat composer workspaceId workspaceFolder =
     (if nonarray_truthy composer then Inl TypeError else
      case (case conversation composer of
              None \<Rightarrow> Inr []
            | Some msgs \<Rightarrow> if length msgs > 0
                           then forEach_push (\<lambda>index. composerMessage) 0 msgs else Inr []) of
        Inl e \<Rightarrow> Inl e
      | Inr msgs \<Rightarrow>
          (let userMessages = filter (\<lambda>m. role m = ''user'') msgs;
               assistantMessages = filter (\<lambda>m. role m = ''assistant'') msgs;
               allFiles = extractFilePaths composer;
               hasCode = (if length allFiles > 0 then Some True
                          else (case Option.bind (composer_context composer) selections of
                                  None \<Rightarrow> None
                                | Some ss \<Rightarrow> Some (length ss > 0)))
           in case formatTimestamp (composer_createdAt composer) of
                Inl e \<Rightarrow> Inl e
              | Inr fc \<Rightarrow>
                 (case formatTimestamp (composer_lastUpdatedAt composer) of
                    Inl e \<Rightarrow> Inl e
                  | Inr fu \<Rightarrow>
                      Inr \<lparr> conv_id = composerId composer,
                            conv_type = ''composer'',
                            title = (if truthy (composer_name composer)
                                     then the (composer_name composer) else ''Untitled''),
                            messages = msgs,
                            createdAt = composer_createdAt composer,
                            lastUpdatedAt = composer_lastUpdatedAt composer,
                            formattedCreatedAt = fc,
                            formattedLastUpdatedAt = fu,
                            workspace = \<lparr> ws_id = workspaceId, folder = workspaceFolder \<rparr>,
                            summary = \<lparr> messageCount = length msgs,
                                        userMessageCount = length userMessages,
                                        assistantMessageCount = length assistantMessages,
                                        hasCodeContext = hasCode,
                                        filesReferenced = allFiles,
                                        averageMessageLength = Math_round (avgLength msgs) \<rparr> \<rparr>)))"

section \<open>The chat normalizer\<close>

text \<open>
  \<open>new Date(t).getTime()\<close> is \<open>t\<close> for a valid time value and \<open>NaN\<close> (\<open>None\<close>) otherwise.
\<close>

definition Date_getTime :: "int \<Rightarrow> int option" where
  "Date_getTime t = (if valid_time t then Some t else None)"

definition has_selections :: "Selection list option \<Rightarrow> bool" where
  "has_selections s \<longleftrightarrow> (case s of None \<Rightarrow> False | Some ss \<Rightarrow> length ss > 0)"

definition chatSummary :: "ExportedMessage list \<Rightarrow> bool \<Rightarrow> Summary" where
  "chatSummary msgs hasCode =
     (let userMessages = filter (\<lambda>m. role m = ''user'') msgs;
          assistantMessages = filter (\<lambda>m. role m = ''assistant'') msgs
      in \<lparr> messageCount = length msgs,
           userMessageCount = length userMessages,
           assistantMessageCount = length assistantMessages,
           hasCodeContext = Some hasCode,
           filesReferenced = [],
           averageMessageLength = Math_round (avgLength msgs) \<rparr>)"

definition chatConversation ::
  "ChatTab \<Rightarrow> int \<Rightarrow> string \<Rightarrow> ExportedMessage list \<Rightarrow> bool \<Rightarrow> string \<Rightarrow> string option
   \<Rightarrow> ExportedConversation" where
  "chatConversation chatTab ts fts msgs hasCode workspaceId workspaceFolder =
     \<lparr> conv_id = tab_id chatTab,
       conv_type = ''chat'',
       title = tab_title chatTab,
       messages = msgs,
       createdAt = ts,
       lastUpdatedAt = ts,
       formattedCreatedAt = fts,
       formattedLastUpdatedAt = fts,
       workspace = \<lparr> ws_id = workspaceId, folder = workspaceFolder \<rparr>,
       summary = chatSummary msgs hasCode \<rparr>"

text \<open>
  \<open>processChatTab\<close> of \<open>src/app/api/export/route.ts\<close>. With an invalid anchor the
  timestamp is \<open>NaN\<close>, every sum with it is \<open>NaN\<close>, and the first \<open>formatTimestamp\<close>
  (at the latest the one of \<open>formattedCreatedAt\<close>) throws.
\<close>

definition chatBubble :: "string \<Rightarrow> int \<Rightarrow> nat \<Rightarrow> ChatBubble \<Rightarrow> js_error + ExportedMessage list" where
  "chatBubble tid ts index bubble =
     (if truthy (bubble_text bubble)
      then (case formatTimestamp (ts + int index * 1000) of
              Inl e \<Rightarrow> Inl e
            | Inr ft \<Rightarrow>
                Inr [\<lparr> msg_id = tid @ ''-'' @ string_of_nat index,
                       role = (if bubble_type bubble = ''ai'' then ''assistant'' else ''user''),
                       content = the (bubble_text bubble),
                       timestamp = ts + int index * 1000,
                       formattedTimestamp = ft,
                       export_context =
                         \<lparr> codeSelections =
                             map_option (\<lambda>ss. filter (\<lambda>t. t \<noteq> []) (map sel_text ss))
                               (bubble_selections bubble),
                           files = None, folders = None, docs = None, commits = None \<rparr>,
                       metadata = \<lparr> meta_modelType = modelType bubble, meta_bubbleId = None \<rparr> \<rparr>])
      else Inr [])"

definition processChatTab ::
  "ChatTab \<Rightarrow> string \<Rightarrow> string option \<Rightarrow> js_error + ExportedConversation" where
  "processChatTab chatTab workspaceId workspaceFolder =
     (case Date_getTime (tab_timestamp chatTab) of
        None \<Rightarrow> Inl RangeError
      | Some ts \<Rightarrow>
         (case forEach_push (chatBubble (tab_id chatTab) ts) 0 (bubbles chatTab) of
            Inl e \<Rightarrow> Inl e
          | Inr msgs \<Rightarrow>
             (let hasCode = list_ex (\<lambda>b. has_selections (bubble_selections b)) (bubbles chatTab)
              in case formatTimestamp ts of
                   Inl e \<Rightarrow> Inl e
                 | Inr fts \<Rightarrow>
                     Inr (chatConversation chatTab ts fts msgs hasCode workspaceId workspaceFolder))))"

text \<open>
  \<open>processChatTab\<close> of \<open>unnamed/part_002\<close>, the version of the route on better-sqlite3:
  the anchor is used as it is, a bubble's own timestamp wins when it is truthy (present
  and not 0), the message context and metadata are empty objects and \<open>hasCodeContext\<close>
  is the constant \<open>false\<close>.
\<close>

definition bubble_time :: "int \<Rightarrow> nat \<Rightarrow> ChatBubble \<Rightarrow> int" where
  "bubble_time ts index bubble =
     (case bubble_timestamp bubble of
        None \<Rightarrow> ts + int index * 1000
      | Some t \<Rightarrow> if t \<noteq> 0 then t else ts + int index * 1000)"

definition chatBubble_part002 ::
  "string \<Rightarrow> int \<Rightarrow> nat \<Rightarrow> ChatBubble \<Rightarrow> js_error + ExportedMessage list" where
  "chatBubble_part002 tid ts index bubble =
     (if truthy (bubble_text bubble)
      then (case formatTimestamp (bubble_time ts index bubble) of
              Inl e \<Rightarrow> Inl e
            | Inr ft \<Rightarrow>
                Inr [\<lparr> msg_id = tid @ ''-'' @ string_of_nat index,
                       role = (if bubble_type bubble = ''ai'' then ''assistant'' else ''user''),
                       content = the (bubble_text bubble),
                       timestamp = bubble_time ts index bubble,
                       formattedTimestamp = ft,
                       export_context =
                         \<lparr> codeSelections = None, files = None, folders = None,
                           docs = None, commits = None \<rparr>,
                       metadata = \<lparr> meta_modelType = None, meta_bubbleId = None \<rparr> \<rparr>])
      else Inr [])"

definition processChatTab_part002 ::
  "ChatTab \<Rightarrow> string \<Rightarrow> string option \<Rightarrow> js_error + ExportedConversation" where
  "processChatTab_part002 chatTab workspaceId workspaceFolder =
     (let ts = tab_timestamp chatTab
      in case forEach_push (chatBubble_part002 (tab_id chatTab) ts) 0 (bubbles chatTab) of
           Inl e \<Rightarrow> Inl e
         | Inr msgs \<Rightarrow>
            (case formatTimestamp ts of
               Inl e \<Rightarrow> Inl e
             | Inr fts \<Rightarrow>
                 Inr (chatConversation chatTab ts fts msgs False workspaceId workspaceFolder)))"

section \<open>The workspace storage\<close>

text \<open>
  What the routes see of the file system and of SQLite. \<open>fs.readdir\<close> lists the entries of
  the workspace directory; an entry has a name, may be a directory, and may hold a
  \<open>state.vscdb\<close> (which \<open>open\<close> may fail on) and a \<open>workspace.json\<close>. A query of
  \<open>ItemTable\<close> throws, finds no row (or an empty value), or finds a value that
  \<open>JSON.parse\<close> rejects or accepts. The directory itself is the one that
  \<open>resolveWorkspacePath\<close> names; that function is not among the source files, and the
  handlers take the listing of its directory as their input.
\<close>

datatype 'a row = QueryFails | NoRow | BadJson | Json 'a

record ComposerData =
  allComposers :: "ComposerChat list"

record ChatData =
  tabs :: "ChatTab list option"

record Store =
  composer_row :: "ComposerData row"
  chat_row :: "ChatData row"

datatype db_file = NoDbFile | Unopenable | Db Store

datatype workspace_json = Unreadable | Folder "string option"

record DirEntry =
  entry_name :: string
  isDirectory :: bool
  state_vscdb :: db_file
  workspace_json :: workspace_json

section \<open>Bulk export: \<open>GET /api/export\<close>\<close>

text \<open>
  \<open>conversations.sort((a, b) => b.lastUpdatedAt - a.lastUpdatedAt)\<close>.
  \<open>Array.prototype.sort\<close> is stable (ECMAScript 2019): an insertion sort that puts an
  element before the first later one it does not compare greater than.
\<close>

fun insert_cmp :: "('a \<Rightarrow> 'a \<Rightarrow> int) \<Rightarrow> 'a \<Rightarrow> 'a list \<Rightarrow> 'a list" where
  "insert_cmp cmp x [] = [x]"
| "insert_cmp cmp x (y # ys) =
     (if cmp x y \<le> 0 then x # y # ys else y # insert_cmp cmp x ys)"

definition Array_sort :: "('a \<Rightarrow> 'a \<Rightarrow> int) \<Rightarrow> 'a list \<Rightarrow> 'a list" where
  "Array_sort cmp xs = foldr (insert_cmp cmp) xs []"

definition push1 :: "js_error + 'a \<Rightarrow> js_error + 'a list" where
  "push1 r = (case r of Inl e \<Rightarrow> Inl e | Inr x \<Rightarrow> Inr [x])"

type_synonym normalizer = "ChatTab \<Rightarrow> string \<Rightarrow> string option \<Rightarrow> js_error + ExportedConversation"

definition readComposers :: "Store \<Rightarrow> string \<Rightarrow> string option \<Rightarrow> js_error + ExportedConversation list" where
  "readComposers db entryName workspaceFolder =
     (case composer_row db of
        QueryFails \<Rightarrow> Inl SqliteError
      | NoRow \<Rightarrow> Inr []
      | BadJson \<Rightarrow> Inl SyntaxError
      | Json composerData \<Rightarrow>
          forEach_push (\<lambda>index composer. push1 (processComposerChat composer entryName workspaceFolder))
            0 (allComposers composerData))"

definition readChats ::
  "normalizer \<Rightarrow> Store \<Rightarrow> string \<Rightarrow> string option \<Rightarrow> js_error + ExportedConversation list" where
  "readChats chatNormalizer db entryName workspaceFolder =
     (case chat_row db of
        QueryFails \<Rightarrow> Inl SqliteError
      | NoRow \<Rightarrow> Inr []
      | BadJson \<Rightarrow> Inl SyntaxError
      | Json chatData \<Rightarrow>
          (case tabs chatData of
             None \<Rightarrow> Inr []
           | Some ts \<Rightarrow>
               forEach_push (\<lambda>index tab. push1 (chatNormalizer tab entryName workspaceFolder)) 0 ts))"

text \<open>The body of the loop over the directory entries, for one entry.\<close>

definition exportEntry ::
  "normalizer \<Rightarrow> bool \<Rightarrow> bool \<Rightarrow> DirEntry \<Rightarrow> js_error + ExportedConversation list" where
  "exportEntry chatNormalizer includeChats includeComposers entry =
     (if isDirectory entry
      then (case state_vscdb entry of
              NoDbFile \<Rightarrow> Inr []
            | Unopenable \<Rightarrow> Inl SqliteError
            | Db db \<Rightarrow>
               (let workspaceFolder =
                      (case workspace_json entry of Unreadable \<Rightarrow> None | Folder f \<Rightarrow> f)
                in case (if includeComposers
                         then readComposers db (entry_name entry) workspaceFolder else Inr []) of
                     Inl e \<Rightarrow> Inl e
                   | Inr cs \<Rightarrow>
                      (case (if includeChats
                             then readChats chatNormalizer db (entry_name entry) workspaceFolder
                             else Inr []) of
                         Inl e \<Rightarrow> Inl e
                       | Inr ts \<Rightarrow> Inr (cs @ ts))))
      else Inr [])"

text \<open>The conversations in enumeration order, before the sort.\<close>

definition enumerate_conversations ::
  "normalizer \<Rightarrow> bool \<Rightarrow> bool \<Rightarrow> DirEntry list \<Rightarrow> js_error + ExportedConversation list" where
  "enumerate_conversations chatNormalizer includeChats includeComposers entries =
     forEach_push (\<lambda>index. exportEntry chatNormalizer includeChats includeComposers) 0 entries"

datatype message = Text string | MessageOf js_error

record ErrorResponse =
  err_status :: nat
  err_error :: string
  err_message :: "message option"

definition export_failed :: ErrorResponse where
  "export_failed = \<lparr> err_status = 500, err_error = ''Failed to export data'', err_message = None \<rparr>"

text \<open>
  The handler: the two query parameters, the two readings of the clock (\<open>new Date()\<close>,
  \<open>Date.now()\<close>) and the result of \<open>fs.readdir\<close> are its inputs. Every exception inside
  the \<open>try\<close> ends in the one \<open>catch\<close>, which answers 500.
\<close>

definition GET_export_with ::
  "normalizer \<Rightarrow> string option \<Rightarrow> string option \<Rightarrow> int \<Rightarrow> int \<Rightarrow> js_error + DirEntry list
   \<Rightarrow> ErrorResponse + ExportData" where
  "GET_export_with chatNormalizer includeChatsParam includeComposersParam clock1 clock2 readdir =
     (let includeChats = (includeChatsParam \<noteq> Some ''false'');
          includeComposers = (includeComposersParam \<noteq> Some ''false'')
      in case readdir of
           Inl e \<Rightarrow> Inl export_failed
         | Inr entries \<Rightarrow>
            (case enumerate_conversations chatNormalizer includeChats includeComposers entries of
               Inl e \<Rightarrow> Inl export_failed
             | Inr unsorted \<Rightarrow>
                (let convs = Array_sort (\<lambda>a b. lastUpdatedAt b - lastUpdatedAt a) unsorted;
                     total = foldl (\<lambda>sum conv. sum + length (messages conv)) 0 convs
                 in Inr \<lparr> exportedAt = toISOString clock1,
                          exportedAtTimestamp = clock2,
                          totalConversations = length convs,
                          totalMessages = total,
                          conversations = convs,
                          export_metadata =
                            \<lparr> exportVersion = ''1.0.0'',
                              source = ''cursor-chat-browser'',
                              description =
                                ''Exported conversation data for semantic search and pattern analysis'' \<rparr> \<rparr>)))"

text \<open>\<open>GET\<close> of \<open>src/app/api/export/route.ts\<close> and \<open>GET\<close> of \<open>unnamed/part_002\<close>.\<close>

definition GET_export ::
  "string option \<Rightarrow> string option \<Rightarrow> int \<Rightarrow> int \<Rightarrow> js_error + DirEntry list \<Rightarrow> ErrorResponse + ExportData" where
  "GET_export = GET_export_with processChatTab"


section \<open>Single lookup: \<open>GET /api/conversations/:id\<close>\<close>

datatype raw_conversation = RawComposer ComposerChat | RawChat ChatTab

record LookupMetadata =
  meta_id :: "string option"
  meta_type :: string
  meta_workspaceId :: string

record LookupResponse =
  success :: bool
  lookup_conversation :: raw_conversation
  lookup_metadata :: LookupMetadata

text \<open>
  \<open>path.join(workspacePath, workspaceId, 'state.vscdb')\<close> (POSIX) joins with \<open>/\<close> and
  normalizes: an empty segment and \<open>.\<close> are dropped, \<open>..\<close> removes the segment before it.
  The result is kept relative to the workspace directory: the number of levels it climbs
  above that directory, then the directories it descends into. So \<open>ws\<close>, \<open>./ws\<close>, \<open>ws/\<close> and
  \<open>x/../ws\<close> all name the store of the entry \<open>ws\<close>, and \<open>..\<close> or \<open>ws/sub\<close> name a
  \<open>state.vscdb\<close> that the listing of the workspace directory does not show. (At the root
  of the file system a real path climbs no further; a file system given to the handler
  answers for the levels above it as for the root.)
\<close>

fun split_on :: "char \<Rightarrow> string \<Rightarrow> string list" where
  "split_on c [] = [] # []"
| "split_on c (x # xs) =
     (if x = c then [] # split_on c xs
      else (case split_on c xs of [] \<Rightarrow> [x] # [] | s # ss \<Rightarrow> (x # s) # ss))"

type_synonym rel_path = "nat \<times> string list"

definition path_segment :: "rel_path \<Rightarrow> string \<Rightarrow> rel_path" where
  "path_segment p seg =
     (case p of (up, dirs) \<Rightarrow>
        if seg = [] \<or> seg = ''.'' then (up, dirs)
        else if seg = ''..'' then (if dirs = [] then (Suc up, []) else (up, butlast dirs))
        else (up, dirs @ [seg]))"

definition join_workspace :: "string \<Rightarrow> rel_path" where
  "join_workspace workspaceId = foldl path_segment (0, []) (split_on (CHR ''/'') workspaceId)"

text \<open>
  The file system as the lookup sees it: what \<open>existsSync\<close> and \<open>open\<close> find as the
  \<open>state.vscdb\<close> of a directory, given by its relative path. \<open>listed_stores\<close> is the file
  system that holds the stores of the listed entries and nothing else (an entry that is
  not a directory and yet holds a store is a symbolic link to a directory: \<open>readdir\<close> does
  not call it a directory, \<open>existsSync\<close> follows it).
\<close>

type_synonym file_system = "rel_path \<Rightarrow> db_file"

definition listed_stores :: "DirEntry list \<Rightarrow> file_system" where
  "listed_stores entries p =
     (case p of (up, dirs) \<Rightarrow>
        if up = 0 \<and> length dirs = 1
        then (case find (\<lambda>e. entry_name e = hd dirs) entries of
                None \<Rightarrow> NoDbFile
              | Some e \<Rightarrow> state_vscdb e)
        else NoDbFile)"

definition store_of :: "DirEntry list \<Rightarrow> string \<Rightarrow> db_file" where
  "store_of entries workspaceId = listed_stores entries (join_workspace workspaceId)"

text \<open>\<open>if (!Array.isArray(composer.conversation)) composer.conversation = []\<close>\<close>

definition ensure_conversation :: "ComposerChat \<Rightarrow> ComposerChat" where
  "ensure_conversation composer =
     (case conversation composer of
        None \<Rightarrow> composer \<lparr> conversation := Some [], conversation_nonarray := None \<rparr>
      | Some ms \<Rightarrow> composer)"

definition fetch_failed :: "js_error \<Rightarrow> ErrorResponse" where
  "fetch_failed e =
     \<lparr> err_status = 500, err_error = ''Failed to fetch conversation'',
       err_message = Some (MessageOf e) \<rparr>"

definition not_found :: "string \<Rightarrow> string \<Rightarrow> string \<Rightarrow> ErrorResponse" where
  "not_found type params_id workspaceId =
     \<lparr> err_status = 404, err_error = ''Conversation not found'',
       err_message = Some (Text (''No '' @ type @ '' conversation found with ID '' @ params_id @
                                 '' in workspace '' @ workspaceId)) \<rparr>"

text \<open>The handler, on any file system.\<close>

definition GET_conversation_at ::
  "file_system \<Rightarrow> string \<Rightarrow> string option \<Rightarrow> string option \<Rightarrow> ErrorResponse + LookupResponse" where
  "GET_conversation_at fs params_id workspaceIdParam typeParam =
     (if \<not> truthy workspaceIdParam \<or> \<not> truthy typeParam
      then Inl \<lparr> err_status = 400, err_error = ''Missing required parameters'',
                 err_message = Some (Text ''Both workspaceId and type (chat|composer) are required'') \<rparr>
      else
       (let workspaceId = the workspaceIdParam; type = the typeParam
        in if type \<noteq> ''chat'' \<and> type \<noteq> ''composer''
           then Inl \<lparr> err_status = 400, err_error = ''Invalid type'',
                      err_message = Some (Text (''type must be either '' @ [CHR 0x22] @ ''chat'' @ [CHR 0x22] @
                                         '' or '' @ [CHR 0x22] @ ''composer'' @ [CHR 0x22])) \<rparr>
           else
            (case fs (join_workspace workspaceId) of
               NoDbFile \<Rightarrow>
                 Inl \<lparr> err_status = 404, err_error = ''Workspace not found'', err_message = None \<rparr>
             | Unopenable \<Rightarrow> Inl (fetch_failed SqliteError)
             | Db db \<Rightarrow>
                (if type = ''composer''
                 then (case composer_row db of
                         QueryFails \<Rightarrow> Inl (fetch_failed SqliteError)
                       | NoRow \<Rightarrow> Inl (not_found type params_id workspaceId)
                       | BadJson \<Rightarrow> Inl (fetch_failed SyntaxError)
                       | Json data \<Rightarrow>
                          (case find (\<lambda>c. composerId c = params_id) (allComposers data) of
                             None \<Rightarrow> Inl (not_found type params_id workspaceId)
                           | Some composer \<Rightarrow>
                               Inr \<lparr> success = True,
                                     lookup_conversation =
                                       RawComposer (ensure_conversation composer),
                                     lookup_metadata =
                                       \<lparr> meta_id = Some (composerId composer),
                                         meta_type = ''composer'',
                                         meta_workspaceId = workspaceId \<rparr> \<rparr>))
                 else (case chat_row db of
                         QueryFails \<Rightarrow> Inl (fetch_failed SqliteError)
                       | NoRow \<Rightarrow> Inl (not_found type params_id workspaceId)
                       | BadJson \<Rightarrow> Inl (fetch_failed SyntaxError)
                       | Json data \<Rightarrow>
                          (case tabs data of
                             None \<Rightarrow> Inl (fetch_failed TypeError)
                           | Some ts \<Rightarrow>
                              (case find (\<lambda>t. tabId t = Some params_id) ts of
                                 None \<Rightarrow> Inl (not_found type params_id workspaceId)
                               | Some chat \<Rightarrow>
                                   Inr \<lparr> success = True,
                                         lookup_conversation = RawChat chat,
                                         lookup_metadata =
                                           \<lparr> meta_id = tabId chat,
                                             meta_type = ''chat'',
                                             meta_workspaceId = workspaceId \<rparr> \<rparr>)))))))"

text \<open>The handler on the file system of a listing.\<close>

definition GET_conversation ::
  "DirEntry list \<Rightarrow> string \<Rightarrow> string option \<Rightarrow> string option \<Rightarrow> ErrorResponse + LookupResponse" where
  "GET_conversation entries = GET_conversation_at (listed_stores entries)"

section \<open>The response bodies as JSON\<close>

text \<open>
  \<open>NextResponse.json\<close> serializes its argument: an object becomes its properties in
  order, and a property whose value is \<open>undefined\<close> is left out.
\<close>

definition opt_prop :: "string \<Rightarrow> ('a \<Rightarrow> json) \<Rightarrow> 'a option \<Rightarrow> (string \<times> json) list" where
  "opt_prop k enc v = (case v of None \<Rightarrow> [] | Some x \<Rightarrow> [(k, enc x)])"

definition json_of_Selection :: "Selection \<Rightarrow> json" where
  "json_of_Selection s = JObj [(''text'', JStr (sel_text s))]"

definition json_of_FileSelection :: "FileSelection \<Rightarrow> json" where
  "json_of_FileSelection file =
     JObj (opt_prop ''uri'' (\<lambda>u. JObj (opt_prop ''fsPath'' JStr (fsPath u))) (uri file))"

definition json_of_Context :: "Context \<Rightarrow> json" where
  "json_of_Context c =
     JObj (opt_prop ''selections'' (\<lambda>ss. JArr (map json_of_Selection ss)) (selections c) @
           opt_prop ''fileSelections'' (\<lambda>fs. JArr (map json_of_FileSelection fs)) (fileSelections c) @
           opt_prop ''folderSelections'' (\<lambda>fs. JArr (map (\<lambda>f. JObj [(''path'', JStr (path f))]) fs))
             (folderSelections c) @
           opt_prop ''selectedDocs''
             (\<lambda>ds. JArr (map (\<lambda>d. JObj [(''title'', JStr (doc_title d)),
                                           (''content'', JStr (doc_content d))]) ds))
             (selectedDocs c) @
           opt_prop ''selectedCommits''
             (\<lambda>cs. JArr (map (\<lambda>c. JObj [(''hash'', JStr (hash c)),
                                           (''message'', JStr (commit_message c))]) cs))
             (selectedCommits c))"

definition json_of_RawMessage :: "RawMessage \<Rightarrow> json" where
  "json_of_RawMessage m =
     JObj ([(''bubbleId'', JStr (bubbleId m)), (''type'', JNum (msg_type m)),
            (''text'', JStr (msg_text m)), (''timestamp'', JNum (msg_timestamp m))] @
           opt_prop ''context'' json_of_Context (msg_context m))"

definition json_of_ComposerChat :: "ComposerChat \<Rightarrow> json" where
  "json_of_ComposerChat c =
     JObj ([(''composerId'', JStr (composerId c))] @
           opt_prop ''name'' JStr (composer_name c) @
           [(''createdAt'', JNum (composer_createdAt c)),
            (''lastUpdatedAt'', JNum (composer_lastUpdatedAt c))] @
           (case conversation c of
              Some ms \<Rightarrow> [(''conversation'', JArr (map json_of_RawMessage ms))]
            | None \<Rightarrow> opt_prop ''conversation'' (\<lambda>v. v) (conversation_nonarray c)) @
           opt_prop ''context'' json_of_Context (composer_context c))"

definition json_of_ChatBubble :: "ChatBubble \<Rightarrow> json" where
  "json_of_ChatBubble b =
     JObj ([(''type'', JStr (bubble_type b))] @
           opt_prop ''text'' JStr (bubble_text b) @
           opt_prop ''timestamp'' JNum (bubble_timestamp b) @
           opt_prop ''selections'' (\<lambda>ss. JArr (map json_of_Selection ss)) (bubble_selections b) @
           opt_prop ''modelType'' JStr (modelType b))"

definition json_of_ChatTab :: "ChatTab \<Rightarrow> json" where
  "json_of_ChatTab t =
     JObj ([(''id'', JStr (tab_id t))] @
           opt_prop ''tabId'' JStr (tabId t) @
           [(''title'', JStr (tab_title t)), (''timestamp'', JNum (tab_timestamp t)),
            (''bubbles'', JArr (map json_of_ChatBubble (bubbles t)))])"

fun json_of_raw_conversation :: "raw_conversation \<Rightarrow> json" where
  "json_of_raw_conversation (RawComposer c) = json_of_ComposerChat c"
| "json_of_raw_conversation (RawChat t) = json_of_ChatTab t"

definition json_of_ExportedMessage :: "ExportedMessage \<Rightarrow> json" where
  "json_of_ExportedMessage m =
     JObj [(''id'', JStr (msg_id m)), (''role'', JStr (role m)), (''content'', JStr (content m)),
           (''timestamp'', JNum (timestamp m)),
           (''formattedTimestamp'', JStr (formattedTimestamp m)),
           (''context'',
              JObj (opt_prop ''codeSelections'' (\<lambda>xs. JArr (map JStr xs))
                      (codeSelections (export_context m)) @
                    opt_prop ''files'' (\<lambda>xs. JArr (map JStr xs)) (files (export_context m)) @
                    opt_prop ''folders'' (\<lambda>xs. JArr (map JStr xs)) (folders (export_context m)) @
                    opt_prop ''docs''
                      (\<lambda>ds. JArr (map (\<lambda>(t, c). JObj [(''title'', JStr t), (''content'', JStr c)]) ds))
                      (docs (export_context m)) @
                    opt_prop ''commits''
                      (\<lambda>cs. JArr (map (\<lambda>(h, c). JObj [(''hash'', JStr h), (''message'', JStr c)]) cs))
                      (commits (export_context m)))),
           (''metadata'',
              JObj (opt_prop ''modelType'' JStr (meta_modelType (metadata m)) @
                    opt_prop ''bubbleId'' JStr (meta_bubbleId (metadata m))))]"

definition json_of_ExportedConversation :: "ExportedConversation \<Rightarrow> json" where
  "json_of_ExportedConversation c =
     JObj [(''id'', JStr (conv_id c)), (''type'', JStr (conv_type c)), (''title'', JStr (title c)),
           (''messages'', JArr (map json_of_ExportedMessage (messages c))),
           (''createdAt'', JNum (createdAt c)), (''lastUpdatedAt'', JNum (lastUpdatedAt c)),
           (''formattedCreatedAt'', JStr (formattedCreatedAt c)),
           (''formattedLastUpdatedAt'', JStr (formattedLastUpdatedAt c)),
           (''workspace'',
              JObj ([(''id'', JStr (ws_id (workspace c)))] @
                    opt_prop ''folder'' JStr (folder (workspace c)))),
           (''summary'',
              JObj ([(''messageCount'', JNum (int (messageCount (summary c)))),
                     (''userMessageCount'', JNum (int (userMessageCount (summary c)))),
                     (''assistantMessageCount'', JNum (int (assistantMessageCount (summary c))))] @
                    opt_prop ''hasCodeContext'' JBool (hasCodeContext (summary c)) @
                    [(''filesReferenced'', JArr (map JStr (filesReferenced (summary c)))),
                     (''averageMessageLength'', JNum (averageMessageLength (summary c)))]))]"

section \<open>Sample inputs\<close>

text \<open>Scenario A of the spec: a thread of two messages, \<open>Hi\<close> from the user, \<open>Hello\<close> in answer.\<close>

definition scenario_A :: ComposerChat where
  "scenario_A =
     \<lparr> composerId = ''thread-a'', composer_name = None,
       composer_createdAt = 100, composer_lastUpdatedAt = 200,
       conversation = Some
         [\<lparr> bubbleId = ''m1'', msg_type = 1, msg_text = ''Hi'', msg_timestamp = 100,
            msg_context = None \<rparr>,
          \<lparr> bubbleId = ''m2'', msg_type = 2, msg_text = ''Hello'', msg_timestamp = 200,
            msg_context = None \<rparr>],
       conversation_nonarray = None,
       composer_context = None \<rparr>"

text \<open>
  Scenario B of the spec: a tab anchored at 1000 with three bubbles, of which only the
  second has a timestamp of its own, 5000; it also carries one code selection.
\<close>

definition scenario_B :: ChatTab where
  "scenario_B =
     \<lparr> tab_id = ''tab-b'', tabId = None, tab_title = ''B'', tab_timestamp = 1000,
       bubbles =
         [\<lparr> bubble_type = ''user'', bubble_text = Some ''one'', bubble_timestamp = None,
            bubble_selections = None, modelType = None \<rparr>,
          \<lparr> bubble_type = ''ai'', bubble_text = Some ''two'', bubble_timestamp = Some 5000,
            bubble_selections = Some [\<lparr> sel_text = ''x = 1'' \<rparr>], modelType = None \<rparr>,
          \<lparr> bubble_type = ''user'', bubble_text = Some ''three'', bubble_timestamp = None,
            bubble_selections = None, modelType = None \<rparr>] \<rparr>"

text \<open>A thread that names \<open>a.ts\<close> in its own context and again, with \<open>b.ts\<close>, in a message.\<close>

definition file_at :: "string \<Rightarrow> FileSelection" where
  "file_at p = \<lparr> uri = Some \<lparr> fsPath = Some p \<rparr> \<rparr>"

definition files_context :: "string list \<Rightarrow> Context" where
  "files_context ps =
     \<lparr> selections = None, fileSelections = Some (map file_at ps), folderSelections = None,
       selectedDocs = None, selectedCommits = None \<rparr>"

definition scenario_files :: ComposerChat where
  "scenario_files =
     \<lparr> composerId = ''thread-f'', composer_name = Some ''Files'',
       composer_createdAt = 300, composer_lastUpdatedAt = 200,
       conversation = Some
         [\<lparr> bubbleId = ''m1'', msg_type = 1, msg_text = ''see'', msg_timestamp = 300,
            msg_context = Some (files_context [''a.ts'', ''b.ts'']) \<rparr>],
       conversation_nonarray = None,
       composer_context = Some (files_context [''a.ts'']) \<rparr>"

text \<open>Workspace directories: one with both scenarios, one whose composer blob is not JSON.\<close>

definition workspace_dir :: "string \<Rightarrow> Store \<Rightarrow> DirEntry" where
  "workspace_dir n s =
     \<lparr> entry_name = n, isDirectory = True, state_vscdb = Db s, workspace_json = Unreadable \<rparr>"

definition good_store :: Store where
  "good_store =
     \<lparr> composer_row = Json \<lparr> allComposers = [scenario_A, scenario_files] \<rparr>,
       chat_row = Json \<lparr> tabs = Some [scenario_B] \<rparr> \<rparr>"


text \<open>
  Directory listings: the good workspace alone, the good one after a broken one, and a
  plain file beside the good one.
\<close>

definition sample_entries :: "DirEntry list" where
  "sample_entries = [workspace_dir ''ws'' good_store]"



text \<open>What the normalizers of \<open>route.ts\<close> make of the three records in workspace \<open>ws\<close>.\<close>

definition normalized_A :: ExportedConversation where
  "normalized_A = projr (processComposerChat scenario_A ''ws'' None)"

definition normalized_files :: ExportedConversation where
  "normalized_files = projr (processComposerChat scenario_files ''ws'' None)"

definition normalized_B :: ExportedConversation where
  "normalized_B = projr (processChatTab scenario_B ''ws'' None)"

text \<open>
  For the lookup: a thread whose \<open>conversation\<close> is the string \<open>none\<close>, a tab that has a
  \<open>tabId\<close>, and a workspace \<open>wl\<close> that holds the two.
\<close>

definition scenario_nonarray :: ComposerChat where
  "scenario_nonarray =
     \<lparr> composerId = ''thread-n'', composer_name = Some ''N'',
       composer_createdAt = 400, composer_lastUpdatedAt = 400,
       conversation = None, conversation_nonarray = Some (JStr ''none''),
       composer_context = None \<rparr>"

definition scenario_tab :: ChatTab where
  "scenario_tab =
     \<lparr> tab_id = ''tab-c'', tabId = Some ''tab-c'', tab_title = ''C'', tab_timestamp = 2000,
       bubbles =
         [\<lparr> bubble_type = ''user'', bubble_text = Some ''hello'', bubble_timestamp = None,
            bubble_selections = None, modelType = None \<rparr>] \<rparr>"

definition lookup_store :: Store where
  "lookup_store =
     \<lparr> composer_row = Json \<lparr> allComposers = [scenario_nonarray] \<rparr>,
       chat_row = Json \<lparr> tabs = Some [scenario_tab] \<rparr> \<rparr>"

definition lookup_entries :: "DirEntry list" where
  "lookup_entries = [workspace_dir ''wl'' lookup_store]"

text \<open>
  A file system with a store below a workspace, at \<open>wl/sub/state.vscdb\<close>, beside the
  listed ones.
\<close>

definition nested_stores :: file_system where
  "nested_stores p = (if p = (0, [''wl'', ''sub'']) then Db lookup_store else listed_stores lookup_entries p)"

section \<open>Notions the claims are stated with\<close>

text \<open>
  \<open>rounded_mean_length msgs k\<close>: \<open>k\<close> is 0 for no message and otherwise the mean content
  length rounded to the nearest integer, a half rounded up.
\<close>

definition rounded_mean_length :: "ExportedMessage list \<Rightarrow> int \<Rightarrow> bool" where
  "rounded_mean_length msgs k \<longleftrightarrow>
     (if msgs = [] then k = 0
      else (let mean = (of_nat (sum_list (map (\<lambda>m. length (content m)) msgs)) /
                        of_nat (length msgs) :: rat)
            in of_int k - 1 / 2 \<le> mean \<and> mean < of_int k + 1 / 2))"

text \<open>
  A name that \<open>readdir\<close> can list: not empty, not \<open>.\<close> or \<open>..\<close>, and without a \<open>/\<close>.
\<close>

definition entry_name_ok :: "string \<Rightarrow> bool" where
  "entry_name_ok n \<longleftrightarrow> n \<noteq> [] \<and> n \<noteq> ''.'' \<and> n \<noteq> ''..'' \<and> CHR ''/'' \<notin> set n"

text \<open>The file paths of a context: the \<open>fsPath\<close> values that are present and not empty.\<close>

definition context_paths :: "Context option \<Rightarrow> string list" where
  "context_paths c =
     (case Option.bind c fileSelections of
        None \<Rightarrow> []
      | Some fs \<Rightarrow> filter_Boolean (map file_fsPath fs))"

section \<open>Loops that push\<close>

lemma forEach_push_all:
  assumes "forEach_push f i xs = Inr ys"
    and "\<And>j x zs. f j x = Inr zs \<Longrightarrow> list_all P zs"
  shows "list_all P ys"
  using assms(1)
proof (induction xs arbitrary: i ys)
  case Nil
  then show ?case by simp
next
  case (Cons x xs)
  from Cons.prems obtain zs ws where fx: "f i x = Inr zs"
    and rest: "forEach_push f (Suc i) xs = Inr ws" and ys: "ys = zs @ ws"
    by (auto split: sum.splits)
  show ?case using Cons.IH [OF rest] assms(2) [OF fx] ys by simp
qed

lemma forEach_push_enumerate:
  assumes "forEach_push f i xs = Inr ys"
    and "\<And>j x zs. f j x = Inr zs \<Longrightarrow> map g zs = h j x"
  shows "map g ys = concat (map (\<lambda>(j, x). h j x) (enumerate i xs))"
  using assms(1)
proof (induction xs arbitrary: i ys)
  case Nil
  then show ?case by simp
next
  case (Cons x xs)
  from Cons.prems obtain zs ws where fx: "f i x = Inr zs"
    and rest: "forEach_push f (Suc i) xs = Inr ws" and ys: "ys = zs @ ws"
    by (auto split: sum.splits)
  show ?case using Cons.IH [OF rest] assms(2) [OF fx] ys by simp
qed

lemma concat_if_singleton:
  "concat (map (\<lambda>(j, x). if P x then [t j x] else []) es) =
   map (\<lambda>(j, x). t j x) (filter (\<lambda>(j, x). P x) es)"
  by (induction es) auto

lemma role_partition:
  "list_all (\<lambda>m. role m = ''user'' \<or> role m = ''assistant'') msgs \<Longrightarrow>
   length (filter (\<lambda>m. role m = ''user'') msgs) + length (filter (\<lambda>m. role m = ''assistant'') msgs)
     = length msgs"
  by (induction msgs) auto

lemma foldl_length_sum:
  "foldl (\<lambda>sum m. sum + length (content m)) a msgs = a + sum_list (map (\<lambda>m. length (content m)) msgs)"
  by (induction msgs arbitrary: a) auto

lemma Math_round_bounds: "of_int (Math_round x) - 1 / 2 \<le> x \<and> x < of_int (Math_round x) + 1 / 2"
  unfolding Math_round_def by linarith

lemma composerMessage_role:
  "composerMessage m = Inr zs \<Longrightarrow> list_all (\<lambda>m. role m = ''user'' \<or> role m = ''assistant'') zs"
  by (auto simp: composerMessage_def split: sum.splits)

lemma chatBubble_role:
  "chatBubble tid ts j b = Inr zs \<Longrightarrow> list_all (\<lambda>m. role m = ''user'' \<or> role m = ''assistant'') zs"
  by (auto simp: chatBubble_def split: sum.splits if_splits)

lemma chatBubble_part002_role:
  "chatBubble_part002 tid ts j b = Inr zs \<Longrightarrow> list_all (\<lambda>m. role m = ''user'' \<or> role m = ''assistant'') zs"
  by (auto simp: chatBubble_part002_def split: sum.splits if_splits)

lemma processComposerChat_Inr:
  assumes "processComposerChat composer w f = Inr c"
  shows "\<exists>msgs. (case conversation composer of None \<Rightarrow> Inr [] | Some ms \<Rightarrow> forEach_push (\<lambda>index. composerMessage) 0 ms) = Inr msgs
     \<and> messages c = msgs
     \<and> summary c = \<lparr> messageCount = length msgs,
                      userMessageCount = length (filter (\<lambda>m. role m = ''user'') msgs),
                      assistantMessageCount = length (filter (\<lambda>m. role m = ''assistant'') msgs),
                      hasCodeContext = (if length (extractFilePaths composer) > 0 then Some True
                          else (case Option.bind (composer_context composer) selections of
                                  None \<Rightarrow> None
                                | Some ss \<Rightarrow> Some (length ss > 0))),
                      filesReferenced = extractFilePaths composer,
                      averageMessageLength = Math_round (avgLength msgs) \<rparr>
     \<and> conv_id c = composerId composer \<and> conv_type c = ''composer''
     \<and> lastUpdatedAt c = composer_lastUpdatedAt composer
     \<and> ws_id (workspace c) = w"
  using assms unfolding processComposerChat_def Let_def
  by (cases "conversation composer") (auto split: sum.splits if_splits)

lemma processChatTab_Inr:
  assumes "processChatTab tab w f = Inr c"
  shows "\<exists>msgs. forEach_push (chatBubble (tab_id tab) (tab_timestamp tab)) 0 (bubbles tab) = Inr msgs
     \<and> messages c = msgs
     \<and> summary c = chatSummary msgs (list_ex (\<lambda>b. has_selections (bubble_selections b)) (bubbles tab))
     \<and> conv_id c = tab_id tab \<and> conv_type c = ''chat''
     \<and> lastUpdatedAt c = tab_timestamp tab \<and> ws_id (workspace c) = w"
  using assms unfolding processChatTab_def Let_def Date_getTime_def chatConversation_def
  by (auto split: sum.splits if_splits option.splits)

lemma processChatTab_part002_Inr:
  assumes "processChatTab_part002 tab w f = Inr c"
  shows "\<exists>msgs. forEach_push (chatBubble_part002 (tab_id tab) (tab_timestamp tab)) 0 (bubbles tab) = Inr msgs
     \<and> messages c = msgs
     \<and> summary c = chatSummary msgs False
     \<and> conv_id c = tab_id tab \<and> conv_type c = ''chat''
     \<and> lastUpdatedAt c = tab_timestamp tab \<and> ws_id (workspace c) = w"
  using assms unfolding processChatTab_part002_def Let_def chatConversation_def
  by (auto split: sum.splits if_splits option.splits)

section \<open>The normalizers on the sample inputs\<close>

lemma formatTimestamp_valid: "\<bar>t\<bar> \<le> 8640000000000000 \<Longrightarrow> formatTimestamp t = Inr (toISOString t)"
  by (simp add: formatTimestamp_def valid_time_def)

lemma string_of_nat_digit: "n < 10 \<Longrightarrow> string_of_nat n = [digit_char n]"
  by (simp add: string_of_nat_def)

lemma digit_chars: "digit_char 0 = CHR ''0''" "digit_char (Suc 0) = CHR ''1''" "digit_char (Suc (Suc 0)) = CHR ''2''"
  by (simp_all add: digit_char_def numeral_2_eq_2)

lemma Math_round_quotient:
  assumes "0 < n"
  shows "Math_round (of_nat s / of_nat n) = int ((2 * s + n) div (2 * n))"
proof -
  have "(of_nat s / of_nat n + 1 / 2 :: rat) = of_nat (2 * s + n) / of_nat (2 * n)"
    using assms by (simp add: field_simps)
  then show ?thesis
    unfolding Math_round_def by (simp only: floor_divide_of_nat_eq)
qed

lemma Math_round_avgLength:
  "msgs \<noteq> [] \<Longrightarrow>
   Math_round (avgLength msgs) =
     int ((2 * sum_list (map (\<lambda>m. length (content m)) msgs) + length msgs) div (2 * length msgs))"
  by (simp add: avgLength_def foldl_length_sum Math_round_quotient)


lemma sample_A:
  "processComposerChat scenario_A ''ws'' None =
     Inr \<lparr> conv_id = ''thread-a'', conv_type = ''composer'', title = ''Untitled'',
           messages =
             [\<lparr> msg_id = ''m1'', role = ''user'', content = ''Hi'', timestamp = 100,
                formattedTimestamp = toISOString 100,
                export_context = \<lparr> codeSelections = None, files = None, folders = None,
                                   docs = None, commits = None \<rparr>,
                metadata = \<lparr> meta_modelType = None, meta_bubbleId = Some ''m1'' \<rparr> \<rparr>,
              \<lparr> msg_id = ''m2'', role = ''assistant'', content = ''Hello'', timestamp = 200,
                formattedTimestamp = toISOString 200,
                export_context = \<lparr> codeSelections = None, files = None, folders = None,
                                   docs = None, commits = None \<rparr>,
                metadata = \<lparr> meta_modelType = None, meta_bubbleId = Some ''m2'' \<rparr> \<rparr>],
           createdAt = 100, lastUpdatedAt = 200,
           formattedCreatedAt = toISOString 100, formattedLastUpdatedAt = toISOString 200,
           workspace = \<lparr> ws_id = ''ws'', folder = None \<rparr>,
           summary = \<lparr> messageCount = 2, userMessageCount = 1, assistantMessageCount = 1,
                       hasCodeContext = None, filesReferenced = [],
                       averageMessageLength = 4 \<rparr> \<rparr>"
  by (simp add: processComposerChat_def nonarray_truthy_def Let_def scenario_A_def
      composerMessage_def formatTimestamp_valid composerContext_def extractFilePaths_def
      truthy_def Math_round_avgLength)


lemma sample_nonarray_export: "processComposerChat scenario_nonarray ''wl'' None = Inl TypeError"
  by (simp add: processComposerChat_def nonarray_truthy_def scenario_nonarray_def)

lemma sample_B:
  "processChatTab scenario_B ''ws'' None =
     Inr \<lparr> conv_id = ''tab-b'', conv_type = ''chat'', title = ''B'',
           messages =
             [\<lparr> msg_id = ''tab-b-0'', role = ''user'', content = ''one'', timestamp = 1000,
                formattedTimestamp = toISOString 1000,
                export_context = \<lparr> codeSelections = None, files = None, folders = None, docs = None, commits = None \<rparr>,
                metadata = \<lparr> meta_modelType = None, meta_bubbleId = None \<rparr> \<rparr>,
              \<lparr> msg_id = ''tab-b-1'', role = ''assistant'', content = ''two'', timestamp = 2000,
                formattedTimestamp = toISOString 2000,
                export_context = \<lparr> codeSelections = Some [''x = 1''], files = None, folders = None, docs = None, commits = None \<rparr>,
                metadata = \<lparr> meta_modelType = None, meta_bubbleId = None \<rparr> \<rparr>,
              \<lparr> msg_id = ''tab-b-2'', role = ''user'', content = ''three'', timestamp = 3000,
                formattedTimestamp = toISOString 3000,
                export_context = \<lparr> codeSelections = None, files = None, folders = None, docs = None, commits = None \<rparr>,
                metadata = \<lparr> meta_modelType = None, meta_bubbleId = None \<rparr> \<rparr>],
           createdAt = 1000, lastUpdatedAt = 1000,
           formattedCreatedAt = toISOString 1000, formattedLastUpdatedAt = toISOString 1000,
           workspace = \<lparr> ws_id = ''ws'', folder = None \<rparr>,
           summary = \<lparr> messageCount = 3, userMessageCount = 2, assistantMessageCount = 1,
                       hasCodeContext = Some True, filesReferenced = [],
                       averageMessageLength = 4 \<rparr> \<rparr>"
  by (simp add: processChatTab_def Let_def scenario_B_def chatBubble_def Date_getTime_def
      valid_time_def formatTimestamp_valid truthy_def has_selections_def chatConversation_def
      chatSummary_def Math_round_avgLength string_of_nat_digit digit_chars)

lemma sample_B_part002:
  "processChatTab_part002 scenario_B ''ws'' None =
     Inr \<lparr> conv_id = ''tab-b'', conv_type = ''chat'', title = ''B'',
           messages =
             [\<lparr> msg_id = ''tab-b-0'', role = ''user'', content = ''one'', timestamp = 1000,
                formattedTimestamp = toISOString 1000,
                export_context = \<lparr> codeSelections = None, files = None, folders = None, docs = None, commits = None \<rparr>,
                metadata = \<lparr> meta_modelType = None, meta_bubbleId = None \<rparr> \<rparr>,
              \<lparr> msg_id = ''tab-b-1'', role = ''assistant'', content = ''two'', timestamp = 5000,
                formattedTimestamp = toISOString 5000,
                export_context = \<lparr> codeSelections = None, files = None, folders = None, docs = None, commits = None \<rparr>,
                metadata = \<lparr> meta_modelType = None, meta_bubbleId = None \<rparr> \<rparr>,
              \<lparr> msg_id = ''tab-b-2'', role = ''user'', content = ''three'', timestamp = 3000,
                formattedTimestamp = toISOString 3000,
                export_context = \<lparr> codeSelections = None, files = None, folders = None, docs = None, commits = None \<rparr>,
                metadata = \<lparr> meta_modelType = None, meta_bubbleId = None \<rparr> \<rparr>],
           createdAt = 1000, lastUpdatedAt = 1000,
           formattedCreatedAt = toISOString 1000, formattedLastUpdatedAt = toISOString 1000,
           workspace = \<lparr> ws_id = ''ws'', folder = None \<rparr>,
           summary = \<lparr> messageCount = 3, userMessageCount = 2, assistantMessageCount = 1,
                       hasCodeContext = Some False, filesReferenced = [],
                       averageMessageLength = 4 \<rparr> \<rparr>"
  by (simp add: processChatTab_part002_def Let_def scenario_B_def chatBubble_part002_def
      bubble_time_def formatTimestamp_valid truthy_def chatConversation_def
      chatSummary_def Math_round_avgLength string_of_nat_digit digit_chars)

section \<open>Claims about the normalizers\<close>

text \<open>
  C7. For every canonical conversation produced by either normalizer (the composer one
  and both versions of the chat one), the user and assistant counts of the summary add up
  to its message count, which is the length of the message list.
\<close>

theorem summary_counts:
  "(processComposerChat composer w f = Inr c \<longrightarrow>
      userMessageCount (summary c) + assistantMessageCount (summary c) = messageCount (summary c)
      \<and> messageCount (summary c) = length (messages c))
   \<and> (processChatTab tab w f = Inr c \<longrightarrow>
      userMessageCount (summary c) + assistantMessageCount (summary c) = messageCount (summary c)
      \<and> messageCount (summary c) = length (messages c))
   \<and> (processChatTab_part002 tab w f = Inr c \<longrightarrow>
      userMessageCount (summary c) + assistantMessageCount (summary c) = messageCount (summary c)
      \<and> messageCount (summary c) = length (messages c))"
proof (intro conjI impI)
  assume a: "processComposerChat composer w f = Inr c"
  from processComposerChat_Inr [OF a] obtain msgs where
    loop: "(case conversation composer of None \<Rightarrow> Inr []
            | Some ms \<Rightarrow> forEach_push (\<lambda>index. composerMessage) 0 ms) = Inr msgs"
    and m: "messages c = msgs"
    and s: "userMessageCount (summary c) = length (filter (\<lambda>m. role m = ''user'') msgs)"
           "assistantMessageCount (summary c) = length (filter (\<lambda>m. role m = ''assistant'') msgs)"
           "messageCount (summary c) = length msgs"
    by auto
  have "list_all (\<lambda>m. role m = ''user'' \<or> role m = ''assistant'') msgs"
  proof (cases "conversation composer")
    case None
    with loop show ?thesis by auto
  next
    case (Some ms)
    with loop have "forEach_push (\<lambda>index. composerMessage) 0 ms = Inr msgs" by simp
    then show ?thesis by (rule forEach_push_all) (rule composerMessage_role)
  qed
  from role_partition [OF this] s m
  show "userMessageCount (summary c) + assistantMessageCount (summary c) = messageCount (summary c)"
    and "messageCount (summary c) = length (messages c)" by simp_all
next
  assume a: "processChatTab tab w f = Inr c"
  from processChatTab_Inr [OF a] obtain msgs where
    loop: "forEach_push (chatBubble (tab_id tab) (tab_timestamp tab)) 0 (bubbles tab) = Inr msgs"
    and m: "messages c = msgs"
    and s: "summary c = chatSummary msgs (list_ex (\<lambda>b. has_selections (bubble_selections b)) (bubbles tab))"
    by auto
  have "list_all (\<lambda>m. role m = ''user'' \<or> role m = ''assistant'') msgs"
    using loop by (rule forEach_push_all) (rule chatBubble_role)
  from role_partition [OF this] s m
  show "userMessageCount (summary c) + assistantMessageCount (summary c) = messageCount (summary c)"
    and "messageCount (summary c) = length (messages c)" by (simp_all add: chatSummary_def)
next
  assume a: "processChatTab_part002 tab w f = Inr c"
  from processChatTab_part002_Inr [OF a] obtain msgs where
    loop: "forEach_push (chatBubble_part002 (tab_id tab) (tab_timestamp tab)) 0 (bubbles tab) = Inr msgs"
    and m: "messages c = msgs"
    and s: "summary c = chatSummary msgs False"
    by auto
  have "list_all (\<lambda>m. role m = ''user'' \<or> role m = ''assistant'') msgs"
    using loop by (rule forEach_push_all) (rule chatBubble_part002_role)
  from role_partition [OF this] s m
  show "userMessageCount (summary c) + assistantMessageCount (summary c) = messageCount (summary c)"
    and "messageCount (summary c) = length (messages c)" by (simp_all add: chatSummary_def)
qed

theorem summary_counts_witness:
  "\<not> isl (processComposerChat scenario_A ''ws'' None)
   \<and> \<not> isl (processChatTab scenario_B ''ws'' None)
   \<and> \<not> isl (processChatTab_part002 scenario_B ''ws'' None)
   \<and> (let s = summary (projr (processComposerChat scenario_A ''ws'' None))
      in userMessageCount s + assistantMessageCount s = messageCount s \<and> messageCount s = 2)
   \<and> (let s = summary (projr (processChatTab scenario_B ''ws'' None))
      in userMessageCount s + assistantMessageCount s = messageCount s \<and> messageCount s = 3)
   \<and> (let s = summary (projr (processChatTab_part002 scenario_B ''ws'' None))
      in userMessageCount s + assistantMessageCount s = messageCount s \<and> messageCount s = 3)"
  using summary_counts [of scenario_A "''ws''" None
      "projr (processComposerChat scenario_A ''ws'' None)" scenario_B]
    summary_counts [of scenario_A "''ws''" None
      "projr (processChatTab scenario_B ''ws'' None)" scenario_B]
    summary_counts [of scenario_A "''ws''" None
      "projr (processChatTab_part002 scenario_B ''ws'' None)" scenario_B]
  by (simp add: sample_A sample_B sample_B_part002)

lemma forEach_push_concat:
  assumes "forEach_push f i xs = Inr ys"
    and "\<And>j x zs. f j x = Inr zs \<Longrightarrow> map g zs = h x"
  shows "map g ys = concat (map h xs)"
  using assms(1)
proof (induction xs arbitrary: i ys)
  case Nil
  then show ?case by simp
next
  case (Cons x xs)
  from Cons.prems obtain zs ws where fx: "f i x = Inr zs"
    and rest: "forEach_push f (Suc i) xs = Inr ws" and ys: "ys = zs @ ws"
    by (auto split: sum.splits)
  show ?case using Cons.IH [OF rest] assms(2) [OF fx] ys by simp
qed

lemma concat_if_map: "concat (map (\<lambda>x. if P x then [r x] else []) xs) = map r (filter P xs)"
  by (induction xs) auto

lemma composer_loop_roles:
  assumes "(case conversation composer of None \<Rightarrow> Inr []
            | Some ms \<Rightarrow> forEach_push (\<lambda>index. composerMessage) 0 ms) = Inr msgs"
  shows "map role msgs = map (\<lambda>m. if msg_type m = 1 then ''user'' else ''assistant'')
           (case conversation composer of None \<Rightarrow> [] | Some ms \<Rightarrow> ms)"
proof (cases "conversation composer")
  case None
  with assms show ?thesis by auto
next
  case (Some ms)
  with assms have loop: "forEach_push (\<lambda>index. composerMessage) 0 ms = Inr msgs" by simp
  have "map role msgs = concat (map (\<lambda>m. [if msg_type m = 1 then ''user'' else ''assistant'']) ms)"
    using loop by (rule forEach_push_concat) (auto simp: composerMessage_def split: sum.splits)
  then show ?thesis using Some by (simp add: concat_map_singleton)
qed

lemma chat_loop_roles:
  assumes "forEach_push (chatBubble tid ts) 0 bs = Inr msgs"
  shows "map role msgs = map (\<lambda>b. if bubble_type b = ''ai'' then ''assistant'' else ''user'')
           (filter (\<lambda>b. truthy (bubble_text b)) bs)"
proof -
  have "map role msgs = concat (map (\<lambda>b. if truthy (bubble_text b)
          then [if bubble_type b = ''ai'' then ''assistant'' else ''user''] else []) bs)"
    using assms by (rule forEach_push_concat) (auto simp: chatBubble_def split: sum.splits if_splits)
  then show ?thesis by (simp add: concat_if_map)
qed

lemma chat_part002_loop_roles:
  assumes "forEach_push (chatBubble_part002 tid ts) 0 bs = Inr msgs"
  shows "map role msgs = map (\<lambda>b. if bubble_type b = ''ai'' then ''assistant'' else ''user'')
           (filter (\<lambda>b. truthy (bubble_text b)) bs)"
proof -
  have "map role msgs = concat (map (\<lambda>b. if truthy (bubble_text b)
          then [if bubble_type b = ''ai'' then ''assistant'' else ''user''] else []) bs)"
    using assms by (rule forEach_push_concat) (auto simp: chatBubble_part002_def split: sum.splits if_splits)
  then show ?thesis by (simp add: concat_if_map)
qed

lemma roles_of_map:
  assumes "map role msgs = map g xs" and "\<And>x. g x = ''user'' \<or> g x = ''assistant''"
  shows "\<forall>m\<in>set msgs. role m = ''user'' \<or> role m = ''assistant''"
proof
  fix m assume "m \<in> set msgs"
  then have "role m \<in> set (map role msgs)" by simp
  then have "role m \<in> set (map g xs)" using assms(1) by simp
  then obtain x where "role m = g x" by auto
  then show "role m = ''user'' \<or> role m = ''assistant''" using assms(2) [of x] by simp
qed

text \<open>
  C10. Whatever the raw discriminant holds, the role of a normalized message is
  \<open>user\<close> or \<open>assistant\<close>: a composer message is \<open>user\<close> for the discriminant 1 and
  \<open>assistant\<close> for every other value; a chat bubble (with text, in either version of the
  chat normalizer) is \<open>assistant\<close> for the marker \<open>ai\<close> and \<open>user\<close> for anything else.
\<close>

theorem roles_closed:
  "(processComposerChat composer w f = Inr c \<longrightarrow>
      (\<forall>m\<in>set (messages c). role m = ''user'' \<or> role m = ''assistant'')
      \<and> map role (messages c) =
          map (\<lambda>m. if msg_type m = 1 then ''user'' else ''assistant'')
            (case conversation composer of None \<Rightarrow> [] | Some ms \<Rightarrow> ms))
   \<and> (processChatTab tab w f = Inr c \<longrightarrow>
      (\<forall>m\<in>set (messages c). role m = ''user'' \<or> role m = ''assistant'')
      \<and> map role (messages c) =
          map (\<lambda>b. if bubble_type b = ''ai'' then ''assistant'' else ''user'')
            (filter (\<lambda>b. truthy (bubble_text b)) (bubbles tab)))
   \<and> (processChatTab_part002 tab w f = Inr c \<longrightarrow>
      (\<forall>m\<in>set (messages c). role m = ''user'' \<or> role m = ''assistant'')
      \<and> map role (messages c) =
          map (\<lambda>b. if bubble_type b = ''ai'' then ''assistant'' else ''user'')
            (filter (\<lambda>b. truthy (bubble_text b)) (bubbles tab)))"
proof (intro conjI impI)
  assume a: "processComposerChat composer w f = Inr c"
  from processComposerChat_Inr [OF a] composer_loop_roles [of composer "messages c"]
  show r: "map role (messages c) =
          map (\<lambda>m. if msg_type m = 1 then ''user'' else ''assistant'')
            (case conversation composer of None \<Rightarrow> [] | Some ms \<Rightarrow> ms)" by auto
  show "\<forall>m\<in>set (messages c). role m = ''user'' \<or> role m = ''assistant''"
    by (rule roles_of_map [OF r]) simp
next
  assume a: "processChatTab tab w f = Inr c"
  from processChatTab_Inr [OF a] chat_loop_roles [of "tab_id tab" "tab_timestamp tab" "bubbles tab" "messages c"]
  show r: "map role (messages c) =
          map (\<lambda>b. if bubble_type b = ''ai'' then ''assistant'' else ''user'')
            (filter (\<lambda>b. truthy (bubble_text b)) (bubbles tab))" by auto
  show "\<forall>m\<in>set (messages c). role m = ''user'' \<or> role m = ''assistant''"
    by (rule roles_of_map [OF r]) simp
next
  assume a: "processChatTab_part002 tab w f = Inr c"
  from processChatTab_part002_Inr [OF a]
    chat_part002_loop_roles [of "tab_id tab" "tab_timestamp tab" "bubbles tab" "messages c"]
  show r: "map role (messages c) =
          map (\<lambda>b. if bubble_type b = ''ai'' then ''assistant'' else ''user'')
            (filter (\<lambda>b. truthy (bubble_text b)) (bubbles tab))" by auto
  show "\<forall>m\<in>set (messages c). role m = ''user'' \<or> role m = ''assistant''"
    by (rule roles_of_map [OF r]) simp
qed

theorem roles_closed_witness:
  "\<not> isl (processComposerChat scenario_A ''ws'' None)
   \<and> \<not> isl (processChatTab scenario_B ''ws'' None)
   \<and> \<not> isl (processChatTab_part002 scenario_B ''ws'' None)
   \<and> map role (messages (projr (processComposerChat scenario_A ''ws'' None))) = [''user'', ''assistant'']
   \<and> map role (messages (projr (processChatTab scenario_B ''ws'' None))) = [''user'', ''assistant'', ''user'']
   \<and> map role (messages (projr (processChatTab_part002 scenario_B ''ws'' None)))
       = [''user'', ''assistant'', ''user'']"
  using roles_closed [of scenario_A "''ws''" None
      "projr (processComposerChat scenario_A ''ws'' None)" scenario_B]
    roles_closed [of scenario_A "''ws''" None
      "projr (processChatTab scenario_B ''ws'' None)" scenario_B]
    roles_closed [of scenario_A "''ws''" None
      "projr (processChatTab_part002 scenario_B ''ws'' None)" scenario_B]
  by (simp add: sample_A sample_B sample_B_part002)

lemma Math_round_0: "Math_round 0 = 0"
  by (simp add: Math_round_def floor_eq_iff)

lemma rounded_mean_length_avg: "rounded_mean_length msgs (Math_round (avgLength msgs))"
proof (cases "msgs = []")
  case True
  then show ?thesis by (simp add: rounded_mean_length_def avgLength_def Math_round_0)
next
  case False
  then have "avgLength msgs = of_nat (sum_list (map (\<lambda>m. length (content m)) msgs)) / of_nat (length msgs)"
    by (simp add: avgLength_def foldl_length_sum)
  with False Math_round_bounds [of "avgLength msgs"] show ?thesis
    by (simp add: rounded_mean_length_def Let_def)
qed

text \<open>
  C9. The average message length of a summary is 0 for an empty message list and
  otherwise the mean content length rounded half up; for Scenario A, with contents of
  lengths 2 and 5, it is 4.
\<close>

theorem average_length:
  "(processComposerChat composer w f = Inr c \<longrightarrow>
      rounded_mean_length (messages c) (averageMessageLength (summary c)))
   \<and> (processChatTab tab w f = Inr c \<longrightarrow>
      rounded_mean_length (messages c) (averageMessageLength (summary c)))
   \<and> (processChatTab_part002 tab w f = Inr c \<longrightarrow>
      rounded_mean_length (messages c) (averageMessageLength (summary c)))
   \<and> map_sum (\<lambda>e. e) (\<lambda>c. (map (\<lambda>m. length (content m)) (messages c), averageMessageLength (summary c)))
        (processComposerChat scenario_A ''ws'' None) = Inr ([2, 5], 4)"
proof (intro conjI impI)
  assume a: "processComposerChat composer w f = Inr c"
  from processComposerChat_Inr [OF a] rounded_mean_length_avg [of "messages c"]
  show "rounded_mean_length (messages c) (averageMessageLength (summary c))" by auto
next
  assume a: "processChatTab tab w f = Inr c"
  from processChatTab_Inr [OF a] rounded_mean_length_avg [of "messages c"]
  show "rounded_mean_length (messages c) (averageMessageLength (summary c))"
    by (auto simp: chatSummary_def)
next
  assume a: "processChatTab_part002 tab w f = Inr c"
  from processChatTab_part002_Inr [OF a] rounded_mean_length_avg [of "messages c"]
  show "rounded_mean_length (messages c) (averageMessageLength (summary c))"
    by (auto simp: chatSummary_def)
next
  show "map_sum (\<lambda>e. e) (\<lambda>c. (map (\<lambda>m. length (content m)) (messages c), averageMessageLength (summary c)))
        (processComposerChat scenario_A ''ws'' None) = Inr ([2, 5], 4)"
    by (simp add: sample_A)
qed

theorem average_length_witness:
  "\<not> isl (processComposerChat scenario_A ''ws'' None)
   \<and> \<not> isl (processChatTab scenario_B ''ws'' None)
   \<and> \<not> isl (processChatTab_part002 scenario_B ''ws'' None)
   \<and> rounded_mean_length (messages (projr (processComposerChat scenario_A ''ws'' None))) 4
   \<and> rounded_mean_length (messages (projr (processChatTab scenario_B ''ws'' None))) 4
   \<and> rounded_mean_length (messages (projr (processChatTab_part002 scenario_B ''ws'' None))) 4"
  using average_length [of scenario_A "''ws''" None
      "projr (processComposerChat scenario_A ''ws'' None)" scenario_B]
    average_length [of scenario_A "''ws''" None
      "projr (processChatTab scenario_B ''ws'' None)" scenario_B]
    average_length [of scenario_A "''ws''" None
      "projr (processChatTab_part002 scenario_B ''ws'' None)" scenario_B]
  by (simp add: sample_A sample_B sample_B_part002)

lemma chat_loop_timestamps:
  assumes "forEach_push (chatBubble tid ts) 0 bs = Inr msgs"
  shows "map timestamp msgs =
           map (\<lambda>(i, b). ts + int i * 1000)
             (filter (\<lambda>(i, b). truthy (bubble_text b)) (enumerate 0 bs))"
proof -
  have "map timestamp msgs = concat (map (\<lambda>(i, b). if truthy (bubble_text b)
          then [ts + int i * 1000] else []) (enumerate 0 bs))"
    using assms by (rule forEach_push_enumerate)
      (auto simp: chatBubble_def split: sum.splits if_splits)
  then show ?thesis by (simp add: concat_if_singleton)
qed

lemma chat_part002_loop_timestamps:
  assumes "forEach_push (chatBubble_part002 tid ts) 0 bs = Inr msgs"
  shows "map timestamp msgs =
           map (\<lambda>(i, b). bubble_time ts i b)
             (filter (\<lambda>(i, b). truthy (bubble_text b)) (enumerate 0 bs))"
proof -
  have "map timestamp msgs = concat (map (\<lambda>(i, b). if truthy (bubble_text b)
          then [bubble_time ts i b] else []) (enumerate 0 bs))"
    using assms by (rule forEach_push_enumerate)
      (auto simp: chatBubble_part002_def split: sum.splits if_splits)
  then show ?thesis by (simp add: concat_if_singleton)
qed

text \<open>
  C2, as stated, fails on \<open>processChatTab\<close> of \<open>src/app/api/export/route.ts\<close>: on the
  tab of Scenario B, whose second bubble has the timestamp 5000 of its own, the message
  timestamps are 1000, 2000, 3000 and not 1000, 5000, 3000.
\<close>

theorem chat_timestamps_counterexample:
  "bubble_timestamp (bubbles scenario_B ! 1) = Some 5000
   \<and> map_sum (\<lambda>e. e) (\<lambda>c. map timestamp (messages c)) (processChatTab scenario_B ''ws'' None)
       = Inr [1000, 2000, 3000]"
  by (simp add: sample_B) (simp add: scenario_B_def)

text \<open>
  C2, amended. In \<open>src/app/api/export/route.ts\<close> the message of a bubble with text has
  the tab's anchor plus 1000 times the bubble's zero-based index as its timestamp,
  whatever timestamp the bubble carries. In \<open>unnamed/part_002\<close> it has the bubble's
  own timestamp when that is present and not 0, and the anchor plus 1000 times the index
  otherwise. Scenario B gives 1000, 5000, 3000 in \<open>unnamed/part_002\<close> and
  1000, 2000, 3000 in \<open>route.ts\<close>.
\<close>

theorem chat_timestamps:
  "(processChatTab tab w f = Inr c \<longrightarrow>
      map timestamp (messages c) =
        map (\<lambda>(i, b). tab_timestamp tab + int i * 1000)
          (filter (\<lambda>(i, b). truthy (bubble_text b)) (enumerate 0 (bubbles tab))))
   \<and> (processChatTab_part002 tab w f = Inr c \<longrightarrow>
      map timestamp (messages c) =
        map (\<lambda>(i, b). case bubble_timestamp b of
                         None \<Rightarrow> tab_timestamp tab + int i * 1000
                       | Some t \<Rightarrow> if t = 0 then tab_timestamp tab + int i * 1000 else t)
          (filter (\<lambda>(i, b). truthy (bubble_text b)) (enumerate 0 (bubbles tab))))
   \<and> map_sum (\<lambda>e. e) (\<lambda>c. map timestamp (messages c))
        (processChatTab_part002 scenario_B ''ws'' None) = Inr [1000, 5000, 3000]
   \<and> map_sum (\<lambda>e. e) (\<lambda>c. map timestamp (messages c))
        (processChatTab scenario_B ''ws'' None) = Inr [1000, 2000, 3000]"
proof (intro conjI impI)
  assume a: "processChatTab tab w f = Inr c"
  from processChatTab_Inr [OF a]
    chat_loop_timestamps [of "tab_id tab" "tab_timestamp tab" "bubbles tab" "messages c"]
  show "map timestamp (messages c) =
        map (\<lambda>(i, b). tab_timestamp tab + int i * 1000)
          (filter (\<lambda>(i, b). truthy (bubble_text b)) (enumerate 0 (bubbles tab)))" by auto
next
  assume a: "processChatTab_part002 tab w f = Inr c"
  have eq: "(\<lambda>(i, b). bubble_time (tab_timestamp tab) i b) =
        (\<lambda>(i, b). case bubble_timestamp b of
                         None \<Rightarrow> tab_timestamp tab + int i * 1000
                       | Some t \<Rightarrow> if t = 0 then tab_timestamp tab + int i * 1000 else t)"
    by (auto simp: bubble_time_def fun_eq_iff split: option.splits)
  from processChatTab_part002_Inr [OF a]
    chat_part002_loop_timestamps [of "tab_id tab" "tab_timestamp tab" "bubbles tab" "messages c"]
  have "map timestamp (messages c) =
        map (\<lambda>(i, b). bubble_time (tab_timestamp tab) i b)
          (filter (\<lambda>(i, b). truthy (bubble_text b)) (enumerate 0 (bubbles tab)))" by auto
  then show "map timestamp (messages c) =
        map (\<lambda>(i, b). case bubble_timestamp b of
                         None \<Rightarrow> tab_timestamp tab + int i * 1000
                       | Some t \<Rightarrow> if t = 0 then tab_timestamp tab + int i * 1000 else t)
          (filter (\<lambda>(i, b). truthy (bubble_text b)) (enumerate 0 (bubbles tab)))"
    by (simp only: eq)
next
  show "map_sum (\<lambda>e. e) (\<lambda>c. map timestamp (messages c))
        (processChatTab_part002 scenario_B ''ws'' None) = Inr [1000, 5000, 3000]"
    by (simp add: sample_B_part002)
next
  show "map_sum (\<lambda>e. e) (\<lambda>c. map timestamp (messages c))
        (processChatTab scenario_B ''ws'' None) = Inr [1000, 2000, 3000]"
    by (simp add: sample_B)
qed

theorem chat_timestamps_witness:
  "\<not> isl (processChatTab scenario_B ''ws'' None)
   \<and> \<not> isl (processChatTab_part002 scenario_B ''ws'' None)
   \<and> map timestamp (messages (projr (processChatTab scenario_B ''ws'' None))) =
        map (\<lambda>(i, b). tab_timestamp scenario_B + int i * 1000)
          (filter (\<lambda>(i, b). truthy (bubble_text b)) (enumerate 0 (bubbles scenario_B)))
   \<and> map timestamp (messages (projr (processChatTab_part002 scenario_B ''ws'' None))) =
        map (\<lambda>(i, b). case bubble_timestamp b of
                         None \<Rightarrow> tab_timestamp scenario_B + int i * 1000
                       | Some t \<Rightarrow> if t = 0 then tab_timestamp scenario_B + int i * 1000 else t)
          (filter (\<lambda>(i, b). truthy (bubble_text b)) (enumerate 0 (bubbles scenario_B)))"
proof -
  have 1: "processChatTab scenario_B ''ws'' None = Inr (projr (processChatTab scenario_B ''ws'' None))"
    by (simp add: sample_B)
  have 2: "processChatTab_part002 scenario_B ''ws'' None
            = Inr (projr (processChatTab_part002 scenario_B ''ws'' None))"
    by (simp add: sample_B_part002)
  from chat_timestamps [of scenario_B "''ws''" None "projr (processChatTab scenario_B ''ws'' None)"] 1
  have a: "map timestamp (messages (projr (processChatTab scenario_B ''ws'' None))) =
        map (\<lambda>(i, b). tab_timestamp scenario_B + int i * 1000)
          (filter (\<lambda>(i, b). truthy (bubble_text b)) (enumerate 0 (bubbles scenario_B)))"
    by blast
  from chat_timestamps [of scenario_B "''ws''" None "projr (processChatTab_part002 scenario_B ''ws'' None)"] 2
  have b: "map timestamp (messages (projr (processChatTab_part002 scenario_B ''ws'' None))) =
        map (\<lambda>(i, b). case bubble_timestamp b of
                         None \<Rightarrow> tab_timestamp scenario_B + int i * 1000
                       | Some t \<Rightarrow> if t = 0 then tab_timestamp scenario_B + int i * 1000 else t)
          (filter (\<lambda>(i, b). truthy (bubble_text b)) (enumerate 0 (bubbles scenario_B)))"
    by blast
  show ?thesis using a b by (simp add: sample_B sample_B_part002)
qed

lemma list_ex_has_selections:
  "list_ex (\<lambda>b. has_selections (bubble_selections b)) bs \<longleftrightarrow>
   (\<exists>b\<in>set bs. \<exists>ss. bubble_selections b = Some ss \<and> ss \<noteq> [])"
  by (auto simp: list_ex_iff has_selections_def split: option.splits)

text \<open>
  C5, as stated, fails on \<open>processChatTab\<close> of \<open>unnamed/part_002\<close>: for the tab of
  Scenario B, whose second bubble carries a selection list of one selection, it answers
  \<open>false\<close>.
\<close>

theorem code_context_flag_counterexample:
  "bubble_selections (bubbles scenario_B ! 1) = Some [\<lparr> sel_text = ''x = 1'' \<rparr>]
   \<and> map_sum (\<lambda>e. e) (\<lambda>c. hasCodeContext (summary c))
        (processChatTab_part002 scenario_B ''ws'' None) = Inr (Some False)"
  by (simp add: sample_B_part002) (simp add: scenario_B_def)

text \<open>
  C5, amended. For a composer conversation \<open>hasCodeContext\<close> is \<open>true\<close> iff
  \<open>filesReferenced\<close> is not empty or the thread-level context carries at least one
  selection. For a chat conversation of \<open>src/app/api/export/route.ts\<close> it is the boolean
  that tells whether some bubble carries a non-empty selection list; for one of
  \<open>unnamed/part_002\<close>, which keeps no selections at all, it is always \<open>false\<close>.
\<close>

theorem code_context_flag:
  "(processComposerChat composer w f = Inr c \<longrightarrow>
      (hasCodeContext (summary c) = Some True \<longleftrightarrow>
         filesReferenced (summary c) \<noteq> [] \<or>
         (\<exists>ctx ss. composer_context composer = Some ctx \<and> selections ctx = Some ss \<and> ss \<noteq> [])))
   \<and> (processChatTab tab w f = Inr c \<longrightarrow>
      hasCodeContext (summary c) =
        Some (\<exists>b\<in>set (bubbles tab). \<exists>ss. bubble_selections b = Some ss \<and> ss \<noteq> []))
   \<and> (processChatTab_part002 tab w f = Inr c \<longrightarrow> hasCodeContext (summary c) = Some False)"
proof (intro conjI impI)
  assume a: "processComposerChat composer w f = Inr c"
  from processComposerChat_Inr [OF a]
  have h: "hasCodeContext (summary c) = (if length (extractFilePaths composer) > 0 then Some True
                          else (case Option.bind (composer_context composer) selections of
                                  None \<Rightarrow> None
                                | Some ss \<Rightarrow> Some (length ss > 0)))"
    and fr: "filesReferenced (summary c) = extractFilePaths composer"
    by auto
  show "hasCodeContext (summary c) = Some True \<longleftrightarrow>
         filesReferenced (summary c) \<noteq> [] \<or>
         (\<exists>ctx ss. composer_context composer = Some ctx \<and> selections ctx = Some ss \<and> ss \<noteq> [])"
    unfolding h fr
    by (cases "composer_context composer") (auto split: option.splits)
next
  assume a: "processChatTab tab w f = Inr c"
  from processChatTab_Inr [OF a]
  show "hasCodeContext (summary c) =
        Some (\<exists>b\<in>set (bubbles tab). \<exists>ss. bubble_selections b = Some ss \<and> ss \<noteq> [])"
    by (auto simp: chatSummary_def list_ex_has_selections)
next
  assume a: "processChatTab_part002 tab w f = Inr c"
  from processChatTab_part002_Inr [OF a]
  show "hasCodeContext (summary c) = Some False"
    by (auto simp: chatSummary_def)
qed

lemma sample_files:
  "\<not> isl (processComposerChat scenario_files ''ws'' None)"
  "filesReferenced (summary (projr (processComposerChat scenario_files ''ws'' None))) = [''a.ts'', ''b.ts'']"
  "hasCodeContext (summary (projr (processComposerChat scenario_files ''ws'' None))) = Some True"
  by (simp_all add: processComposerChat_def nonarray_truthy_def Let_def scenario_files_def
      composerMessage_def formatTimestamp_valid extractFilePaths_def add_fileSelections_def
      Set_add_def file_fsPath_def files_context_def file_at_def truthy_def)

theorem code_context_flag_witness:
  "\<not> isl (processComposerChat scenario_files ''ws'' None)
   \<and> \<not> isl (processChatTab scenario_B ''ws'' None)
   \<and> \<not> isl (processChatTab_part002 scenario_B ''ws'' None)
   \<and> hasCodeContext (summary (projr (processComposerChat scenario_files ''ws'' None))) = Some True
   \<and> filesReferenced (summary (projr (processComposerChat scenario_files ''ws'' None))) \<noteq> []
   \<and> hasCodeContext (summary (projr (processChatTab scenario_B ''ws'' None))) = Some True
   \<and> hasCodeContext (summary (projr (processChatTab_part002 scenario_B ''ws'' None))) = Some False"
  using code_context_flag [of scenario_files "''ws''" None
      "projr (processComposerChat scenario_files ''ws'' None)" scenario_B]
    code_context_flag [of scenario_files "''ws''" None
      "projr (processChatTab scenario_B ''ws'' None)" scenario_B]
    code_context_flag [of scenario_files "''ws''" None
      "projr (processChatTab_part002 scenario_B ''ws'' None)" scenario_B]
  by (simp add: sample_files sample_B sample_B_part002)

lemma Set_add_distinct: "distinct s \<Longrightarrow> distinct (Set_add s x)"
  by (simp add: Set_add_def)

lemma Set_add_set: "set (Set_add s x) = insert x (set s)"
  by (auto simp: Set_add_def)

lemma add_fileSelections_distinct: "distinct s \<Longrightarrow> distinct (add_fileSelections s fs)"
  unfolding add_fileSelections_def
  by (induction fs arbitrary: s) (simp_all add: Set_add_distinct)

lemma add_fileSelections_set:
  "set (add_fileSelections s fs) = set s \<union> set (filter_Boolean (map file_fsPath fs))"
  unfolding add_fileSelections_def filter_Boolean_def
  by (induction fs arbitrary: s) (auto simp: Set_add_set)

lemma add_context_distinct:
  "distinct s \<Longrightarrow>
   distinct (case Option.bind c fileSelections of None \<Rightarrow> s | Some fs \<Rightarrow> add_fileSelections s fs)"
  by (simp add: add_fileSelections_distinct split: option.splits)

lemma add_context_set:
  "set (case Option.bind c fileSelections of None \<Rightarrow> s | Some fs \<Rightarrow> add_fileSelections s fs)
     = set s \<union> set (context_paths c)"
  by (simp add: add_fileSelections_set context_paths_def split: option.splits)

lemma fold_messages_distinct:
  "distinct s \<Longrightarrow>
   distinct (foldl (\<lambda>s msg. case Option.bind (msg_context msg) fileSelections of
                              None \<Rightarrow> s | Some fs \<Rightarrow> add_fileSelections s fs) s msgs)"
proof (induction msgs arbitrary: s)
  case Nil
  then show ?case by simp
next
  case (Cons m msgs)
  show ?case
    using Cons.IH [OF add_context_distinct [where c = "msg_context m", OF Cons.prems]] by simp
qed

lemma fold_messages_set:
  "set (foldl (\<lambda>s msg. case Option.bind (msg_context msg) fileSelections of
                         None \<Rightarrow> s | Some fs \<Rightarrow> add_fileSelections s fs) s msgs)
     = set s \<union> (\<Union>m\<in>set msgs. set (context_paths (msg_context m)))"
proof (induction msgs arbitrary: s)
  case Nil
  then show ?case by simp
next
  case (Cons m msgs)
  show ?case
    using add_context_set [where c = "msg_context m" and s = s] by (simp add: Cons.IH Un_assoc)
qed

lemma extractFilePaths_distinct: "distinct (extractFilePaths composer)"
proof -
  have 1: "distinct (case Option.bind (composer_context composer) fileSelections of
                      None \<Rightarrow> [] | Some fs \<Rightarrow> add_fileSelections [] fs)"
    by (rule add_context_distinct) simp
  show ?thesis
    unfolding extractFilePaths_def Let_def
    by (cases "conversation composer") (simp_all add: 1 fold_messages_distinct [OF 1])
qed

lemma extractFilePaths_set:
  "set (extractFilePaths composer) =
     set (context_paths (composer_context composer)) \<union>
     (\<Union>m\<in>set (case conversation composer of None \<Rightarrow> [] | Some ms \<Rightarrow> ms).
        set (context_paths (msg_context m)))"
  unfolding extractFilePaths_def Let_def
  by (cases "conversation composer") (simp_all add: fold_messages_set add_context_set)

text \<open>
  C8. The \<open>filesReferenced\<close> of a composer conversation has no duplicate, and as a set
  it is the union of the file paths of the thread-level context and of the context of
  every message (a path being an \<open>fsPath\<close> that is present and not empty), also when a
  path occurs in both.
\<close>

theorem files_referenced_distinct:
  "processComposerChat composer w f = Inr c \<Longrightarrow>
   distinct (filesReferenced (summary c))
   \<and> set (filesReferenced (summary c)) =
       set (context_paths (composer_context composer)) \<union>
       (\<Union>m\<in>set (case conversation composer of None \<Rightarrow> [] | Some ms \<Rightarrow> ms).
          set (context_paths (msg_context m)))"
proof -
  assume a: "processComposerChat composer w f = Inr c"
  from processComposerChat_Inr [OF a]
  have "filesReferenced (summary c) = extractFilePaths composer" by auto
  then show ?thesis by (simp add: extractFilePaths_distinct extractFilePaths_set)
qed

theorem files_referenced_distinct_witness:
  "\<not> isl (processComposerChat scenario_files ''ws'' None)
   \<and> context_paths (composer_context scenario_files) = [''a.ts'']
   \<and> concat (map (\<lambda>m. context_paths (msg_context m)) (the (conversation scenario_files)))
       = [''a.ts'', ''b.ts'']
   \<and> filesReferenced (summary (projr (processComposerChat scenario_files ''ws'' None))) = [''a.ts'', ''b.ts'']
   \<and> distinct (filesReferenced (summary (projr (processComposerChat scenario_files ''ws'' None))))
   \<and> set (filesReferenced (summary (projr (processComposerChat scenario_files ''ws'' None)))) =
       set (context_paths (composer_context scenario_files)) \<union>
       (\<Union>m\<in>set (case conversation scenario_files of None \<Rightarrow> [] | Some ms \<Rightarrow> ms).
          set (context_paths (msg_context m)))"
proof -
  have 1: "processComposerChat scenario_files ''ws'' None
            = Inr (projr (processComposerChat scenario_files ''ws'' None))"
    using sample_files(1) by simp
  have 2: "context_paths (composer_context scenario_files) = [''a.ts'']"
    "concat (map (\<lambda>m. context_paths (msg_context m)) (the (conversation scenario_files)))
       = [''a.ts'', ''b.ts'']"
    by (simp_all add: scenario_files_def context_paths_def files_context_def file_at_def
        filter_Boolean_def file_fsPath_def truthy_def)
  from files_referenced_distinct [OF 1] sample_files 2 show ?thesis by simp
qed

lemma insert_cmp_insort:
  "insert_cmp (\<lambda>a b. lastUpdatedAt b - lastUpdatedAt a) x ys
     = insort_key (\<lambda>c. - lastUpdatedAt c) x ys"
  by (induction ys) auto

lemma Array_sort_sort_key:
  "Array_sort (\<lambda>a b. lastUpdatedAt b - lastUpdatedAt a) xs = sort_key (\<lambda>c. - lastUpdatedAt c) xs"
  unfolding Array_sort_def sort_key_def
  by (induction xs) (simp_all add: insert_cmp_insort)

lemma Array_sort_sorted:
  "sorted_wrt (\<lambda>a b. lastUpdatedAt a \<ge> lastUpdatedAt b)
     (Array_sort (\<lambda>a b. lastUpdatedAt b - lastUpdatedAt a) xs)"
proof -
  have "sorted (map (\<lambda>c. - lastUpdatedAt c) (sort_key (\<lambda>c. - lastUpdatedAt c) xs))"
    by (rule sorted_sort_key)
  then show ?thesis
    by (simp add: Array_sort_sort_key sorted_map)
qed

lemma Array_sort_stable:
  "filter (\<lambda>c. lastUpdatedAt c = k) (Array_sort (\<lambda>a b. lastUpdatedAt b - lastUpdatedAt a) xs)
     = filter (\<lambda>c. lastUpdatedAt c = k) xs"
proof -
  have "filter (\<lambda>c. - lastUpdatedAt c = - k) (sort_key (\<lambda>c. - lastUpdatedAt c) xs)
          = filter (\<lambda>c. - lastUpdatedAt c = - k) xs"
    by (rule sort_key_stable)
  then show ?thesis by (simp add: Array_sort_sort_key)
qed

lemma Array_sort_set:
  "set (Array_sort (\<lambda>a b. lastUpdatedAt b - lastUpdatedAt a) xs) = set xs"
  by (simp add: Array_sort_sort_key)

lemma Array_sort_length:
  "length (Array_sort (\<lambda>a b. lastUpdatedAt b - lastUpdatedAt a) xs) = length xs"
  by (simp add: Array_sort_sort_key)

lemma GET_export_with_Inr:
  assumes "GET_export_with cn ic icc t1 t2 (Inr entries) = Inr e"
  shows "\<exists>unsorted.
     enumerate_conversations cn (ic \<noteq> Some ''false'') (icc \<noteq> Some ''false'') entries = Inr unsorted
     \<and> conversations e = Array_sort (\<lambda>a b. lastUpdatedAt b - lastUpdatedAt a) unsorted"
  using assms unfolding GET_export_with_def Let_def
  by (auto split: sum.splits)

text \<open>
  C6. The conversation list of a bulk export (the handler of \<open>route.ts\<close> and the one of
  \<open>unnamed/part_002\<close> are the two instances of \<open>GET_export_with\<close>) is sorted
  non-increasing by \<open>lastUpdatedAt\<close>, and the sort is stable: the conversations with one
  and the same \<open>lastUpdatedAt\<close> stand in the order in which the enumeration of
  workspaces and collections produced them.
\<close>

theorem export_sorted_stable:
  assumes "GET_export_with chatNormalizer includeChats includeComposers clock1 clock2 (Inr entries)
             = Inr e"
  shows "\<exists>unsorted.
     enumerate_conversations chatNormalizer (includeChats \<noteq> Some ''false'')
        (includeComposers \<noteq> Some ''false'') entries = Inr unsorted
     \<and> sorted_wrt (\<lambda>a b. lastUpdatedAt a \<ge> lastUpdatedAt b) (conversations e)
     \<and> (\<forall>k. filter (\<lambda>c. lastUpdatedAt c = k) (conversations e)
             = filter (\<lambda>c. lastUpdatedAt c = k) unsorted)
     \<and> length (conversations e) = length unsorted"
proof -
  from GET_export_with_Inr [OF assms] obtain unsorted where
    u: "enumerate_conversations chatNormalizer (includeChats \<noteq> Some ''false'')
        (includeComposers \<noteq> Some ''false'') entries = Inr unsorted"
    and c: "conversations e = Array_sort (\<lambda>a b. lastUpdatedAt b - lastUpdatedAt a) unsorted"
    by blast
  show ?thesis
    using u unfolding c
    by (simp add: Array_sort_sorted Array_sort_stable Array_sort_length)
qed

lemma normalized_samples:
  "processComposerChat scenario_A ''ws'' None = Inr normalized_A"
  "processComposerChat scenario_files ''ws'' None = Inr normalized_files"
  "processChatTab scenario_B ''ws'' None = Inr normalized_B"
  using sample_files(1)
  by (simp_all add: normalized_A_def normalized_files_def normalized_B_def sample_A sample_B)

lemma normalized_keys:
  "lastUpdatedAt normalized_A = 200" "lastUpdatedAt normalized_files = 200"
  "lastUpdatedAt normalized_B = 1000"
  "conv_id normalized_A = ''thread-a''" "conv_id normalized_files = ''thread-f''"
  "conv_id normalized_B = ''tab-b''"
  "conv_type normalized_A = ''composer''" "conv_type normalized_files = ''composer''"
  "conv_type normalized_B = ''chat''"
  "ws_id (workspace normalized_A) = ''ws''" "ws_id (workspace normalized_files) = ''ws''"
  "ws_id (workspace normalized_B) = ''ws''"
  using processComposerChat_Inr [OF normalized_samples(1)]
    processComposerChat_Inr [OF normalized_samples(2)]
    processChatTab_Inr [OF normalized_samples(3)]
  by (auto simp: scenario_A_def scenario_files_def scenario_B_def)

lemma sample_enumeration:
  "enumerate_conversations processChatTab True True sample_entries
     = Inr [normalized_A, normalized_files, normalized_B]"
  by (simp add: enumerate_conversations_def sample_entries_def workspace_dir_def exportEntry_def
      good_store_def readComposers_def readChats_def push1_def normalized_samples)

lemma sample_export:
  "\<not> isl (GET_export None None t1 t2 (Inr sample_entries))"
  "conversations (projr (GET_export None None t1 t2 (Inr sample_entries)))
     = [normalized_B, normalized_A, normalized_files]"
  by (simp_all add: GET_export_def GET_export_with_def Let_def sample_enumeration Array_sort_def
      normalized_keys)

theorem export_sorted_stable_witness:
  "\<not> isl (GET_export None None 0 0 (Inr sample_entries))
   \<and> enumerate_conversations processChatTab True True sample_entries
       = Inr [normalized_A, normalized_files, normalized_B]
   \<and> conversations (projr (GET_export None None 0 0 (Inr sample_entries)))
       = [normalized_B, normalized_A, normalized_files]
   \<and> map lastUpdatedAt [normalized_B, normalized_A, normalized_files] = [1000, 200, 200]
   \<and> sorted_wrt (\<lambda>a b. lastUpdatedAt a \<ge> lastUpdatedAt b)
        (conversations (projr (GET_export None None 0 0 (Inr sample_entries))))
   \<and> filter (\<lambda>c. lastUpdatedAt c = 200) (conversations (projr (GET_export None None 0 0 (Inr sample_entries))))
       = filter (\<lambda>c. lastUpdatedAt c = 200) [normalized_A, normalized_files, normalized_B]"
proof -
  have 1: "GET_export_with processChatTab None None 0 0 (Inr sample_entries)
            = Inr (projr (GET_export None None 0 0 (Inr sample_entries)))"
    using sample_export(1) [of 0 0] by (simp add: GET_export_def)
  from export_sorted_stable [OF 1] show ?thesis
    by (simp add: sample_enumeration sample_export normalized_keys)
qed











lemma split_on_absent: "c \<notin> set n \<Longrightarrow> split_on c n = [n]"
  by (induction n) auto

lemma join_workspace_name: "entry_name_ok n \<Longrightarrow> join_workspace n = (0, [n])"
  by (simp add: entry_name_ok_def join_workspace_def split_on_absent path_segment_def)

lemma join_workspace_samples:
  "join_workspace ''ws'' = (0, [''ws''])" "join_workspace ''./ws'' = (0, [''ws''])"
  "join_workspace ''wl/'' = (0, [''wl''])" "join_workspace ''x/../ws'' = (0, [''ws''])"
  "join_workspace ''wl/sub'' = (0, [''wl'', ''sub''])" "join_workspace ''..'' = (Suc 0, [])"
  by (simp_all add: join_workspace_def path_segment_def)

lemma listed_stores_entry:
  "listed_stores (workspace_dir n s # es) (0, [n]) = Db s"
  by (simp add: listed_stores_def workspace_dir_def)

lemma sample_store: "store_of sample_entries ''ws'' = Db good_store"
  by (simp add: store_of_def join_workspace_samples sample_entries_def listed_stores_entry)

text \<open>
  C3 fails on the code for chat tabs. The full export of the sample directory holds the
  conversation of the tab of Scenario B with id \<open>tab-b\<close>, type \<open>chat\<close>, workspace
  \<open>ws\<close>; the lookup of that id, type and workspace answers 404, because the export emits
  the tab's \<open>id\<close> while the lookup compares the tab's \<open>tabId\<close>, which this tab lacks.
\<close>

theorem chat_round_trip_fails:
  "\<not> isl (GET_export None None 0 0 (Inr sample_entries))
   \<and> conversations (projr (GET_export None None 0 0 (Inr sample_entries)))
       = [normalized_B, normalized_A, normalized_files]
   \<and> conv_id normalized_B = ''tab-b'' \<and> conv_type normalized_B = ''chat''
   \<and> ws_id (workspace normalized_B) = ''ws''
   \<and> GET_conversation sample_entries ''tab-b'' (Some ''ws'') (Some ''chat'')
       = Inl (not_found ''chat'' ''tab-b'' ''ws'')
   \<and> err_status (not_found ''chat'' ''tab-b'' ''ws'') = 404"
proof -
  have "GET_conversation sample_entries ''tab-b'' (Some ''ws'') (Some ''chat'')
       = Inl (not_found ''chat'' ''tab-b'' ''ws'')"
    by (simp add: GET_conversation_def GET_conversation_at_def Let_def truthy_def
        sample_store [unfolded store_of_def] good_store_def scenario_B_def)
  then show ?thesis
    by (simp add: sample_export normalized_keys not_found_def)
qed

theorem chat_round_trip_fails_witness:
  "(''tab-b'', ''chat'', ''ws'')
      \<in> set (map (\<lambda>c. (conv_id c, conv_type c, ws_id (workspace c)))
                (conversations (projr (GET_export None None 0 0 (Inr sample_entries)))))
   \<and> isl (GET_conversation sample_entries ''tab-b'' (Some ''ws'') (Some ''chat''))
   \<and> err_status (projl (GET_conversation sample_entries ''tab-b'' (Some ''ws'') (Some ''chat'')))
       = 404"
  using chat_round_trip_fails by simp

lemma sample_lookup_A:
  "GET_conversation sample_entries ''thread-a'' (Some ''ws'') (Some ''composer'')
     = Inr \<lparr> success = True, lookup_conversation = RawComposer scenario_A,
             lookup_metadata = \<lparr> meta_id = Some ''thread-a'', meta_type = ''composer'',
                                 meta_workspaceId = ''ws'' \<rparr> \<rparr>"
  by (simp add: GET_conversation_def GET_conversation_at_def Let_def truthy_def
        sample_store [unfolded store_of_def] good_store_def)
     (simp add: scenario_A_def ensure_conversation_def)

text \<open>
  C4, as stated, fails: the lookup of the thread of Scenario A succeeds and returns the
  raw thread, whose JSON (keys \<open>composerId\<close>, \<open>createdAt\<close>, ...) is not the JSON of the
  canonical conversation that the bulk export holds for the same thread (keys \<open>id\<close>,
  \<open>type\<close>, \<open>title\<close>, \<open>messages\<close>, ..., \<open>summary\<close>).
\<close>

theorem lookup_not_canonical:
  "GET_conversation sample_entries ''thread-a'' (Some ''ws'') (Some ''composer'')
     = Inr \<lparr> success = True, lookup_conversation = RawComposer scenario_A,
             lookup_metadata = \<lparr> meta_id = Some ''thread-a'', meta_type = ''composer'',
                                 meta_workspaceId = ''ws'' \<rparr> \<rparr>
   \<and> processComposerChat scenario_A ''ws'' None = Inr normalized_A
   \<and> normalized_A \<in> set (conversations (projr (GET_export None None 0 0 (Inr sample_entries))))
   \<and> json_of_raw_conversation (RawComposer scenario_A) \<noteq> json_of_ExportedConversation normalized_A"
proof -
  have "json_of_raw_conversation (RawComposer scenario_A) \<noteq> json_of_ExportedConversation normalized_A"
    by (simp add: json_of_ComposerChat_def json_of_ExportedConversation_def)
  then show ?thesis
    by (simp add: sample_lookup_A normalized_samples sample_export)
qed

lemma find_SomeD: "find P xs = Some x \<Longrightarrow> x \<in> set xs \<and> P x"
  by (induction xs) (auto split: if_splits)

text \<open>
  C4, amended. A successful lookup returns the stored raw record itself, found by a scan
  of the requested collection of the store that \<open>path.join\<close> of the workspace id names:
  for type \<open>composer\<close> the first thread whose \<open>composerId\<close> is the id, with a
  \<open>conversation\<close> that is not an array (absent or of another kind) replaced by the empty
  list; for type \<open>chat\<close> the first tab whose \<open>tabId\<close> is the id, unchanged. No
  normalizer is applied. The metadata are the id, the type and the workspace id of the
  request.
\<close>

theorem lookup_returns_raw:
  assumes "GET_conversation_at fs params_id workspaceId type = Inr r"
  shows "success r
     \<and> lookup_metadata r = \<lparr> meta_id = Some params_id, meta_type = the type,
                              meta_workspaceId = the workspaceId \<rparr>
     \<and> (\<exists>db. fs (join_workspace (the workspaceId)) = Db db \<and>
          ((type = Some ''composer'' \<and>
            (\<exists>data composer. composer_row db = Json data
               \<and> find (\<lambda>c. composerId c = params_id) (allComposers data) = Some composer
               \<and> lookup_conversation r =
                   RawComposer (case conversation composer of
                                  None \<Rightarrow> composer \<lparr> conversation := Some [],
                                                     conversation_nonarray := None \<rparr>
                                | Some ms \<Rightarrow> composer)))
           \<or> (type = Some ''chat'' \<and>
            (\<exists>data ts tab. chat_row db = Json data \<and> tabs data = Some ts
               \<and> find (\<lambda>t. tabId t = Some params_id) ts = Some tab
               \<and> lookup_conversation r = RawChat tab))))"
proof -
  from assms have t: "truthy workspaceId" "truthy type"
    and ty: "the type = ''chat'' \<or> the type = ''composer''"
    unfolding GET_conversation_at_def Let_def by (auto split: if_splits)
  from t obtain tt where tt: "type = Some tt" by (cases type) (auto simp: truthy_def)
  from assms t ty obtain db where db: "fs (join_workspace (the workspaceId)) = Db db"
    unfolding GET_conversation_at_def Let_def by (auto split: if_splits db_file.splits)
  show ?thesis
  proof (cases "the type = ''composer''")
    case True
    with assms t db obtain data composer where
      "composer_row db = Json data"
      "find (\<lambda>c. composerId c = params_id) (allComposers data) = Some composer"
      "r = \<lparr> success = True,
             lookup_conversation = RawComposer (ensure_conversation composer),
             lookup_metadata = \<lparr> meta_id = Some (composerId composer), meta_type = ''composer'',
                                 meta_workspaceId = the workspaceId \<rparr> \<rparr>"
      unfolding GET_conversation_at_def Let_def
      by (auto split: if_splits row.splits option.splits)
    moreover from this(2) have "composerId composer = params_id" by (auto dest: find_SomeD)
    ultimately show ?thesis using db True tt by (auto simp: ensure_conversation_def)
  next
    case False
    with ty have c: "the type = ''chat''" by simp
    with assms t db obtain data ts tab where
      "chat_row db = Json data" "tabs data = Some ts"
      "find (\<lambda>t. tabId t = Some params_id) ts = Some tab"
      "r = \<lparr> success = True, lookup_conversation = RawChat tab,
             lookup_metadata = \<lparr> meta_id = tabId tab, meta_type = ''chat'',
                                 meta_workspaceId = the workspaceId \<rparr> \<rparr>"
      unfolding GET_conversation_at_def Let_def
      by (auto split: if_splits row.splits option.splits)
    moreover from this(3) have "tabId tab = Some params_id" by (auto dest: find_SomeD)
    ultimately show ?thesis using db c tt by auto
  qed
qed

lemma lookup_store_at:
  "listed_stores lookup_entries (0, [''wl'']) = Db lookup_store"
  "nested_stores (0, [''wl'', ''sub'']) = Db lookup_store"
  by (simp_all add: lookup_entries_def listed_stores_entry nested_stores_def)

lemma sample_lookup_dot:
  "GET_conversation_at (listed_stores sample_entries) ''thread-a'' (Some ''./ws'') (Some ''composer'')
     = Inr \<lparr> success = True, lookup_conversation = RawComposer scenario_A,
             lookup_metadata = \<lparr> meta_id = Some ''thread-a'', meta_type = ''composer'',
                                 meta_workspaceId = ''./ws'' \<rparr> \<rparr>"
  by (simp add: GET_conversation_at_def Let_def truthy_def join_workspace_samples
        sample_entries_def listed_stores_entry good_store_def)
     (simp add: scenario_A_def ensure_conversation_def)

lemma sample_lookup_chat:
  "GET_conversation_at (listed_stores lookup_entries) ''tab-c'' (Some ''wl/'') (Some ''chat'')
     = Inr \<lparr> success = True, lookup_conversation = RawChat scenario_tab,
             lookup_metadata = \<lparr> meta_id = Some ''tab-c'', meta_type = ''chat'',
                                 meta_workspaceId = ''wl/'' \<rparr> \<rparr>"
  by (simp add: GET_conversation_at_def Let_def truthy_def join_workspace_samples
        lookup_store_at lookup_store_def)
     (simp add: scenario_tab_def)

lemma sample_lookup_nonarray:
  "GET_conversation_at nested_stores ''thread-n'' (Some ''wl/sub'') (Some ''composer'')
     = Inr \<lparr> success = True,
             lookup_conversation =
               RawComposer (scenario_nonarray \<lparr> conversation := Some [],
                                                conversation_nonarray := None \<rparr>),
             lookup_metadata = \<lparr> meta_id = Some ''thread-n'', meta_type = ''composer'',
                                 meta_workspaceId = ''wl/sub'' \<rparr> \<rparr>"
  by (simp add: GET_conversation_at_def Let_def truthy_def join_workspace_samples
        lookup_store_at lookup_store_def)
     (simp add: scenario_nonarray_def ensure_conversation_def)

theorem lookup_returns_raw_witness:
  "GET_conversation sample_entries ''thread-a'' (Some ''./ws'') (Some ''composer'')
     = Inr \<lparr> success = True, lookup_conversation = RawComposer scenario_A,
             lookup_metadata = \<lparr> meta_id = Some ''thread-a'', meta_type = ''composer'',
                                 meta_workspaceId = ''./ws'' \<rparr> \<rparr>
   \<and> listed_stores sample_entries (join_workspace ''./ws'') = Db good_store
   \<and> find (\<lambda>c. composerId c = ''thread-a'') [scenario_A, scenario_files] = Some scenario_A
   \<and> GET_conversation lookup_entries ''tab-c'' (Some ''wl/'') (Some ''chat'')
     = Inr \<lparr> success = True, lookup_conversation = RawChat scenario_tab,
             lookup_metadata = \<lparr> meta_id = Some ''tab-c'', meta_type = ''chat'',
                                 meta_workspaceId = ''wl/'' \<rparr> \<rparr>
   \<and> listed_stores lookup_entries (join_workspace ''wl/'') = Db lookup_store
   \<and> find (\<lambda>t. tabId t = Some ''tab-c'') [scenario_tab] = Some scenario_tab
   \<and> GET_conversation_at nested_stores ''thread-n'' (Some ''wl/sub'') (Some ''composer'')
     = Inr \<lparr> success = True,
             lookup_conversation =
               RawComposer (scenario_nonarray \<lparr> conversation := Some [],
                                                conversation_nonarray := None \<rparr>),
             lookup_metadata = \<lparr> meta_id = Some ''thread-n'', meta_type = ''composer'',
                                 meta_workspaceId = ''wl/sub'' \<rparr> \<rparr>
   \<and> nested_stores (join_workspace ''wl/sub'') = Db lookup_store
   \<and> conversation scenario_nonarray = None
   \<and> conversation_nonarray scenario_nonarray = Some (JStr ''none'')"
proof -
  have stores: "listed_stores sample_entries (join_workspace ''./ws'') = Db good_store"
    "listed_stores lookup_entries (join_workspace ''wl/'') = Db lookup_store"
    "nested_stores (join_workspace ''wl/sub'') = Db lookup_store"
    by (simp_all add: join_workspace_samples lookup_store_at sample_entries_def listed_stores_entry)
  have finds: "find (\<lambda>c. composerId c = ''thread-a'') [scenario_A, scenario_files] = Some scenario_A"
    "find (\<lambda>t. tabId t = Some ''tab-c'') [scenario_tab] = Some scenario_tab"
    "conversation scenario_nonarray = None"
    "conversation_nonarray scenario_nonarray = Some (JStr ''none'')"
    by (simp_all add: scenario_A_def scenario_tab_def scenario_nonarray_def)
  from lookup_returns_raw [OF sample_lookup_dot] lookup_returns_raw [OF sample_lookup_chat]
    lookup_returns_raw [OF sample_lookup_nonarray]
  show ?thesis
    by (simp only: GET_conversation_def sample_lookup_dot sample_lookup_chat
        sample_lookup_nonarray stores finds simp_thms)
qed

section \<open>The round trip of composer threads\<close>

lemma forEach_push_mem:
  assumes "forEach_push (\<lambda>index. g) i xs = Inr ys" and "y \<in> set ys"
  shows "\<exists>x\<in>set xs. \<exists>zs. g x = Inr zs \<and> y \<in> set zs"
  using assms
proof (induction xs arbitrary: i ys)
  case Nil
  then show ?case by simp
next
  case (Cons x xs)
  from Cons.prems(1) obtain zs ws where fx: "g x = Inr zs"
    and rest: "forEach_push (\<lambda>index. g) (Suc i) xs = Inr ws" and ys: "ys = zs @ ws"
    by (auto split: sum.splits)
  from Cons.prems(2) ys have "y \<in> set zs \<or> y \<in> set ws" by simp
  then show ?case
  proof
    assume "y \<in> set zs"
    with fx show ?thesis by auto
  next
    assume "y \<in> set ws"
    from Cons.IH [OF rest this] show ?thesis by auto
  qed
qed

lemma find_distinct_name:
  "distinct (map f xs) \<Longrightarrow> x \<in> set xs \<Longrightarrow> find (\<lambda>e. f e = f x) xs = Some x"
  by (induction xs) (auto simp: image_iff)

lemma find_exists: "\<exists>x\<in>set xs. P x \<Longrightarrow> \<exists>y. find P xs = Some y \<and> P y"
  by (induction xs) auto

lemma push1_mem: "push1 r = Inr zs \<Longrightarrow> y \<in> set zs \<Longrightarrow> r = Inr y"
  by (auto simp: push1_def split: sum.splits)

lemma readChats_type:
  assumes "readChats processChatTab db n fo = Inr ts" and "c \<in> set ts"
  shows "conv_type c = ''chat''"
proof -
  from assms obtain data tabs' where "chat_row db = Json data" "tabs data = Some tabs'"
    and loop: "forEach_push (\<lambda>index tab. push1 (processChatTab tab n fo)) 0 tabs' = Inr ts"
    unfolding readChats_def by (auto split: row.splits option.splits)
  from forEach_push_mem [OF loop assms(2)] obtain tab zs where
    "push1 (processChatTab tab n fo) = Inr zs" "c \<in> set zs" by blast
  then have "processChatTab tab n fo = Inr c" by (rule push1_mem)
  from processChatTab_Inr [OF this] show ?thesis by auto
qed

lemma readComposers_origin:
  assumes "readComposers db n fo = Inr cs" and "c \<in> set cs"
  shows "\<exists>data composer. composer_row db = Json data \<and> composer \<in> set (allComposers data)
           \<and> conv_id c = composerId composer \<and> ws_id (workspace c) = n"
proof -
  from assms obtain data where d: "composer_row db = Json data"
    and loop: "forEach_push (\<lambda>index composer. push1 (processComposerChat composer n fo)) 0
                 (allComposers data) = Inr cs"
    unfolding readComposers_def by (auto split: row.splits)
  from forEach_push_mem [OF loop assms(2)] obtain composer zs where
    m: "composer \<in> set (allComposers data)"
    and "push1 (processComposerChat composer n fo) = Inr zs" "c \<in> set zs" by blast
  then have "processComposerChat composer n fo = Inr c" by (auto dest: push1_mem)
  from processComposerChat_Inr [OF this] d m show ?thesis by auto
qed

text \<open>
  The composer path does round-trip: both routes compare \<open>composerId\<close>. For every
  composer conversation of an export, the lookup of its id and workspace succeeds with
  that id (directory entries have distinct names that \<open>readdir\<close> can list).
\<close>

lemma composer_round_trip:
  assumes ex: "GET_export includeChats includeComposers clock1 clock2 (Inr entries) = Inr e"
    and c: "c \<in> set (conversations e)" and ty: "conv_type c = ''composer''"
    and names: "distinct (map entry_name entries)"
      "\<forall>entry\<in>set entries. entry_name_ok (entry_name entry)"
  shows "\<exists>r. GET_conversation entries (conv_id c) (Some (ws_id (workspace c))) (Some ''composer'') = Inr r
           \<and> meta_id (lookup_metadata r) = Some (conv_id c)"
proof -
  from GET_export_with_Inr [OF ex [unfolded GET_export_def]] obtain unsorted where
    u: "enumerate_conversations processChatTab (includeChats \<noteq> Some ''false'')
          (includeComposers \<noteq> Some ''false'') entries = Inr unsorted"
    and s: "conversations e = Array_sort (\<lambda>a b. lastUpdatedAt b - lastUpdatedAt a) unsorted"
    by blast
  from c s have "c \<in> set unsorted" by (simp add: Array_sort_set)
  from forEach_push_mem [OF u [unfolded enumerate_conversations_def] this]
  obtain entry zs where en: "entry \<in> set entries"
    and ee: "exportEntry processChatTab (includeChats \<noteq> Some ''false'')
               (includeComposers \<noteq> Some ''false'') entry = Inr zs"
    and cz: "c \<in> set zs" by blast
  from ee cz obtain db cs ts where db: "state_vscdb entry = Db db"
    and parts: "(if includeComposers \<noteq> Some ''false''
                 then readComposers db (entry_name entry)
                        (case workspace_json entry of Unreadable \<Rightarrow> None | Folder f \<Rightarrow> f)
                 else Inr []) = Inr cs"
       "(if includeChats \<noteq> Some ''false''
                 then readChats processChatTab db (entry_name entry)
                        (case workspace_json entry of Unreadable \<Rightarrow> None | Folder f \<Rightarrow> f)
                 else Inr []) = Inr ts"
       "zs = cs @ ts"
    unfolding exportEntry_def Let_def
    by (auto split: if_splits db_file.splits sum.splits)
  have "c \<notin> set ts"
  proof
    assume "c \<in> set ts"
    with parts(2) have "conv_type c = ''chat''"
      by (auto split: if_splits dest: readChats_type)
    with ty show False by simp
  qed
  with cz parts(3) have "c \<in> set cs" by simp
  with parts(1) obtain data composer where d: "composer_row db = Json data"
    and m: "composer \<in> set (allComposers data)"
    and i: "conv_id c = composerId composer" and w: "ws_id (workspace c) = entry_name entry"
    by (auto split: if_splits dest: readComposers_origin)
  from names(2) en have ok: "entry_name_ok (entry_name entry)" by simp
  from find_distinct_name [OF names(1) en] db
  have st: "listed_stores entries (join_workspace (entry_name entry)) = Db db"
    by (simp add: listed_stores_def join_workspace_name [OF ok])
  from m i have "\<exists>x\<in>set (allComposers data). composerId x = conv_id c" by auto
  from find_exists [OF this] obtain found where
    f: "find (\<lambda>x. composerId x = conv_id c) (allComposers data) = Some found"
    and fi: "composerId found = conv_id c" by blast
  from ok have ne: "entry_name entry \<noteq> []" by (simp add: entry_name_ok_def)
  show ?thesis
    unfolding GET_conversation_def GET_conversation_at_def Let_def
    by (simp add: truthy_def w ne st d f fi)
qed

end
